theory Spec2Isabelle
  imports Complex_Main "HOL-Library.AList" "HOL-Library.Char_ord" "HOL-Library.List_Lexorder"
begin

section \<open>Python values and exceptions\<close>

text \<open>
  The DMI client works on what \<^verbatim>\<open>response.json()\<close> returns: untyped Python values
  (\<^verbatim>\<open>None\<close>, booleans, numbers, strings, lists and dicts), and it builds dicts and
  lists of the same kind. A dict is an association list in insertion order, read with
  \<open>map_of\<close> and written with \<open>AList.update\<close> (an existing key keeps its place, a new
  key goes to the end, as in Python). An \<^verbatim>\<open>int\<close> is exact and unbounded. A
  \<^verbatim>\<open>float\<close> is an IEEE double: a finite number, an infinity or NaN (the sign of zero
  is not modelled). \<open>VDatetime\<close> is the reading of the clock that
  \<^verbatim>\<open>dt_util.utcnow()\<close> returns.
\<close>

datatype pyfloat = Finite real | PosInf | NegInf | NaN

datatype pyval =
    VNone
  | VBool bool
  | VInt int
  | VFloat pyfloat
  | VStr string
  | VList "pyval list"
  | VDict "(pyval \<times> pyval) list"
  | VDatetime nat

text \<open>
  Exceptions, by the class that decides which \<^verbatim>\<open>except\<close> clause takes them. Every
  class here derives from \<^verbatim>\<open>Exception\<close>. \<open>ClientResponseError st\<close> is
  \<^verbatim>\<open>aiohttp.ClientResponseError\<close> (or a subclass such as \<^verbatim>\<open>ContentTypeError\<close>)
  with its \<^verbatim>\<open>status\<close> attribute; \<open>ClientError\<close> is any other \<^verbatim>\<open>aiohttp.ClientError\<close>.
  An exception carries the text \<^verbatim>\<open>str(err)\<close> and the \<^verbatim>\<open>__cause__\<close> set by
  \<^verbatim>\<open>raise ... from err\<close>. The texts of the errors the interpreter raises itself
  (\<open>TypeError\<close>, \<open>AttributeError\<close>, \<open>KeyError\<close>, \<open>IndexError\<close>, \<open>OverflowError\<close>) are
  left empty.
\<close>

datatype exn_class =
    ClientResponseError int
  | ClientError
  | RateLimitExceeded
  | CannotConnect
  | TimeoutError
  | UpdateFailed
  | TypeError
  | AttributeError
  | KeyError
  | IndexError
  | OverflowError
  | ValueError
  | OtherException string

datatype exn = Exn (exn_class: exn_class) (exn_str: string) (exn_cause: "exn option")

text \<open>Sequencing of calls that may raise: the first exception ends the computation.\<close>

fun ebind :: "'e + 'a \<Rightarrow> ('a \<Rightarrow> 'e + 'b) \<Rightarrow> 'e + 'b" where
  "ebind (Inl e) f = Inl e"
| "ebind (Inr x) f = f x"

section \<open>Double precision arithmetic\<close>

text \<open>
  Python's \<^verbatim>\<open>float\<close> arithmetic rounds the exact result to the nearest double, ties to
  the even significand. \<open>binade x\<close> is the exponent \<open>e\<close> with \<open>2 ^ e \<le> \<bar>x\<bar> < 2 ^ (e + 1)\<close>,
  \<open>ulp x\<close> the distance of neighbouring doubles there (53 significant bits, the smallest
  exponent -1022), and \<open>double x\<close> the rounded value, before the test for overflow.
\<close>

definition pow2 :: "int \<Rightarrow> real" where
  "pow2 e = (if 0 \<le> e then 2 ^ nat e else 1 / 2 ^ nat (- e))"

definition binade :: "real \<Rightarrow> int" where
  "binade x = \<lfloor>log 2 \<bar>x\<bar>\<rfloor>"

definition round_even :: "real \<Rightarrow> int" where
  "round_even z =
     (if z - of_int \<lfloor>z\<rfloor> < 1 / 2 then \<lfloor>z\<rfloor>
      else if 1 / 2 < z - of_int \<lfloor>z\<rfloor> then \<lfloor>z\<rfloor> + 1
      else if even \<lfloor>z\<rfloor> then \<lfloor>z\<rfloor>
      else \<lfloor>z\<rfloor> + 1)"

definition ulp :: "real \<Rightarrow> real" where
  "ulp x = pow2 (max (binade x) (- 1022) - 52)"

definition double :: "real \<Rightarrow> real" where
  "double x = (if x = 0 then 0 else of_int (round_even (x / ulp x)) * ulp x)"

text \<open>The rounded value is in the range of the finite doubles.\<close>

definition fits_double :: "real \<Rightarrow> bool" where
  "fits_double x \<longleftrightarrow> \<bar>double x\<bar> < 2 ^ 1024"

text \<open>The float for an exact result: a result beyond the range is an infinity.\<close>

definition to_float :: "real \<Rightarrow> pyfloat" where
  "to_float x = (if fits_double x then Finite (double x) else if 0 < x then PosInf else NegInf)"

text \<open>\<^verbatim>\<open>float(n)\<close> for an int, as arithmetic with a float does it.\<close>

definition int_to_float :: "int \<Rightarrow> exn + real" where
  "int_to_float n =
     (if fits_double (of_int n) then Inr (double (of_int n))
      else Inl (Exn OverflowError [] None))"

text \<open>\<^verbatim>\<open>x - c\<close> for a float \<open>x\<close> and a finite double \<open>c\<close>.\<close>

fun float_sub :: "pyfloat \<Rightarrow> real \<Rightarrow> pyfloat" where
  "float_sub (Finite x) c = to_float (x - c)"
| "float_sub PosInf c = PosInf"
| "float_sub NegInf c = NegInf"
| "float_sub NaN c = NaN"

section \<open>Operations on Python values\<close>

text \<open>
  \<^verbatim>\<open>a == b\<close> for dict keys: numbers are compared by value, whatever their type
  (\<^verbatim>\<open>True == 1 == 1.0\<close>), and NaN equals nothing.
\<close>

fun number_of_key :: "pyval \<Rightarrow> real option" where
  "number_of_key (VBool b) = Some (if b then 1 else 0)"
| "number_of_key (VInt n) = Some (of_int n)"
| "number_of_key (VFloat (Finite x)) = Some x"
| "number_of_key _ = None"

definition py_eq :: "pyval \<Rightarrow> pyval \<Rightarrow> bool" where
  "py_eq a b =
     (case (number_of_key a, number_of_key b) of
        (Some x, Some y) \<Rightarrow> x = y
      | (None, None) \<Rightarrow> a = b \<and> a \<noteq> VFloat NaN
      | _ \<Rightarrow> False)"

text \<open>The value of the first key of a dict that equals \<open>key\<close>.\<close>

fun dict_lookup :: "(pyval \<times> pyval) list \<Rightarrow> pyval \<Rightarrow> pyval option" where
  "dict_lookup [] key = None"
| "dict_lookup ((k, v) # d) key = (if py_eq k key then Some v else dict_lookup d key)"

text \<open>
  Storing under \<open>key\<close>: an entry whose key equals \<open>key\<close> keeps its key and its place and
  gets the value; otherwise a new entry with \<open>key\<close> itself goes to the end.
\<close>

fun dict_update :: "pyval \<Rightarrow> pyval \<Rightarrow> (pyval \<times> pyval) list \<Rightarrow> (pyval \<times> pyval) list" where
  "dict_update key v [] = [(key, v)]"
| "dict_update key v ((k, w) # d) =
     (if py_eq k key then (k, v) # d else (k, w) # dict_update key v d)"

text \<open>
  \<^verbatim>\<open>d.get(key, default)\<close>: only a dict has the method. A string key equals only the
  same string, so \<open>map_of\<close> finds it.
\<close>

fun py_get :: "pyval \<Rightarrow> string \<Rightarrow> pyval \<Rightarrow> exn + pyval" where
  "py_get (VDict d) key dflt =
     (case map_of d (VStr key) of None \<Rightarrow> Inr dflt | Some v \<Rightarrow> Inr v)"
| "py_get _ key dflt = Inl (Exn AttributeError [] None)"

text \<open>\<^verbatim>\<open>d[key]\<close> on a dict with a string key.\<close>

fun py_item :: "pyval \<Rightarrow> string \<Rightarrow> exn + pyval" where
  "py_item (VDict d) key =
     (case map_of d (VStr key) of None \<Rightarrow> Inl (Exn KeyError key None) | Some v \<Rightarrow> Inr v)"
| "py_item _ key = Inl (Exn TypeError [] None)"

text \<open>\<^verbatim>\<open>for x in v\<close>: a list yields its elements, a string its characters, a dict its keys.\<close>

fun py_iter :: "pyval \<Rightarrow> exn + pyval list" where
  "py_iter (VList xs) = Inr xs"
| "py_iter (VStr s) = Inr (map (\<lambda>c. VStr [c]) s)"
| "py_iter (VDict d) = Inr (map fst d)"
| "py_iter _ = Inl (Exn TypeError [] None)"

text \<open>\<^verbatim>\<open>len(v)\<close>.\<close>

fun py_len :: "pyval \<Rightarrow> exn + nat" where
  "py_len (VList xs) = Inr (length xs)"
| "py_len (VStr s) = Inr (length s)"
| "py_len (VDict d) = Inr (length d)"
| "py_len _ = Inl (Exn TypeError [] None)"

text \<open>\<^verbatim>\<open>v[i]\<close> for an index \<open>i \<ge> 0\<close>; on a dict the integer is looked up as a key.\<close>

fun py_index :: "pyval \<Rightarrow> nat \<Rightarrow> exn + pyval" where
  "py_index (VList xs) i = (if i < length xs then Inr (xs ! i) else Inl (Exn IndexError [] None))"
| "py_index (VStr s) i = (if i < length s then Inr (VStr [s ! i]) else Inl (Exn IndexError [] None))"
| "py_index (VDict d) i =
     (case dict_lookup d (VInt (int i)) of None \<Rightarrow> Inl (Exn KeyError [] None) | Some v \<Rightarrow> Inr v)"
| "py_index _ i = Inl (Exn TypeError [] None)"

text \<open>Truth value of a value in \<^verbatim>\<open>if v:\<close>.\<close>

fun py_truthy :: "pyval \<Rightarrow> bool" where
  "py_truthy VNone = False"
| "py_truthy (VBool b) = b"
| "py_truthy (VInt n) = (n \<noteq> 0)"
| "py_truthy (VFloat (Finite x)) = (x \<noteq> 0)"
| "py_truthy (VFloat x) = True"
| "py_truthy (VStr s) = (s \<noteq> [])"
| "py_truthy (VList xs) = (xs \<noteq> [])"
| "py_truthy (VDict d) = (d \<noteq> [])"
| "py_truthy (VDatetime t) = True"

text \<open>
  \<^verbatim>\<open>v - c\<close> for the float literal \<open>c\<close> of the source, which is the double nearest to
  it: a float is subtracted in double arithmetic; an int (a bool counts as 0 or 1) is
  converted to a float first, which raises \<^verbatim>\<open>OverflowError\<close> beyond the range of the
  doubles; anything else raises \<^verbatim>\<open>TypeError\<close>.
\<close>

fun py_sub :: "pyval \<Rightarrow> real \<Rightarrow> exn + pyval" where
  "py_sub (VFloat x) c = Inr (VFloat (float_sub x (double c)))"
| "py_sub (VInt n) c =
     ebind (int_to_float n) (\<lambda>a. Inr (VFloat (to_float (a - double c))))"
| "py_sub (VBool b) c = Inr (VFloat (to_float ((if b then 1 else 0) - double c)))"
| "py_sub _ c = Inl (Exn TypeError [] None)"

text \<open>\<^verbatim>\<open>d[key] = value\<close> on a dict: lists and dicts are unhashable.\<close>

fun hashable :: "pyval \<Rightarrow> bool" where
  "hashable (VList xs) = False"
| "hashable (VDict d) = False"
| "hashable v = True"

definition py_setitem ::
  "(pyval \<times> pyval) list \<Rightarrow> pyval \<Rightarrow> pyval \<Rightarrow> exn + (pyval \<times> pyval) list" where
  "py_setitem d key v =
     (if hashable key then Inr (dict_update key v d) else Inl (Exn TypeError [] None))"

section \<open>The HTTP session\<close>

text \<open>
  What the aiohttp session does is not part of the repository, so it is an argument: for
  a URL and query parameters, \<^verbatim>\<open>session.get\<close> either raises on entering the context
  or yields a response with a status, the behaviour of \<^verbatim>\<open>raise_for_status()\<close>
  (\<open>None\<close>: it returns) and the behaviour of \<^verbatim>\<open>json()\<close>. \<open>PPoint lon lat\<close> is the
  text \<^verbatim>\<open>f"POINT({longitude} {latitude})"\<close>, kept as its two numbers.
\<close>

datatype param = PInt int | PStr string | PPoint real real

record response =
  status :: int
  raise_for_status :: "exn option"
  json :: "exn + pyval"

type_synonym session = "string \<Rightarrow> (string \<times> param) list \<Rightarrow> exn + response"

definition BASE_URL :: string where
  "BASE_URL = ''https://opendataapi.dmi.dk''"

definition METOBS_URL :: string where
  "METOBS_URL = BASE_URL @ ''/v2/metObs''"

definition FORECAST_URL :: string where
  "FORECAST_URL = BASE_URL @ ''/v1/forecastedr''"

text \<open>The body of the \<^verbatim>\<open>try\<close> in \<^verbatim>\<open>_request\<close>.\<close>

definition request_body :: "exn + response \<Rightarrow> exn + pyval" where
  "request_body entered =
     ebind entered (\<lambda>response.
       if status response = 429
       then Inl (Exn RateLimitExceeded ''DMI API rate limit exceeded'' None)
       else (case raise_for_status response of
               Some err \<Rightarrow> Inl err
             | None \<Rightarrow> json response))"

text \<open>
  The \<^verbatim>\<open>except\<close> clauses of \<^verbatim>\<open>_request\<close>, in their order: the exception that
  leaves the function for an exception raised in the body. An exception that is no
  \<^verbatim>\<open>aiohttp.ClientError\<close> is not caught.
\<close>

definition request_except :: "exn \<Rightarrow> exn" where
  "request_except err =
     (case exn_class err of
        ClientResponseError st \<Rightarrow>
          if st = 429
          then Exn RateLimitExceeded ''DMI API rate limit exceeded'' (Some err)
          else Exn CannotConnect (''API error: '' @ exn_str err) (Some err)
      | ClientError \<Rightarrow> Exn CannotConnect (''Connection error: '' @ exn_str err) (Some err)
      | _ \<Rightarrow> err)"

text \<open>\<^verbatim>\<open>DMIApiClient._request\<close>.\<close>

definition request :: "session \<Rightarrow> string \<Rightarrow> (string \<times> param) list \<Rightarrow> exn + pyval" where
  "request session url params =
     (case request_body (session url params) of
        Inl err \<Rightarrow> Inl (request_except err)
      | Inr data \<Rightarrow> Inr data)"

section \<open>Stations\<close>

text \<open>The station dict built from one feature (the loop body of \<^verbatim>\<open>get_stations\<close>).\<close>

definition station_of :: "pyval \<Rightarrow> exn + pyval" where
  "station_of feature =
     ebind (py_get feature ''properties'' (VDict [])) (\<lambda>props.
     ebind (py_get feature ''geometry'' (VDict [])) (\<lambda>geometry.
     ebind (py_get geometry ''coordinates'' (VList [VNone, VNone])) (\<lambda>coordinates.
     ebind (py_get props ''stationId'' VNone) (\<lambda>stationId.
     ebind (py_get props ''name'' VNone) (\<lambda>name.
     ebind (ebind (py_len coordinates) (\<lambda>n.
              if n > 0 then py_index coordinates 0 else Inr VNone)) (\<lambda>longitude.
     ebind (ebind (py_len coordinates) (\<lambda>n.
              if n > 1 then py_index coordinates 1 else Inr VNone)) (\<lambda>latitude.
     ebind (py_get props ''type'' VNone) (\<lambda>type.
     ebind (py_get props ''parameterId'' (VList [])) (\<lambda>parameterId.
       Inr (VDict
         [(VStr ''stationId'', stationId),
          (VStr ''name'', name),
          (VStr ''longitude'', longitude),
          (VStr ''latitude'', latitude),
          (VStr ''type'', type),
          (VStr ''parameterId'', parameterId)]))))))))))"

text \<open>The loop of \<^verbatim>\<open>get_stations\<close> over the features, with the list built so far.\<close>

fun stations_loop :: "pyval list \<Rightarrow> pyval list \<Rightarrow> exn + pyval list" where
  "stations_loop [] stations = Inr stations"
| "stations_loop (feature # features) stations =
     ebind (station_of feature) (\<lambda>station.
     ebind (py_item station ''stationId'') (\<lambda>stationId.
       if py_truthy stationId
       then stations_loop features (stations @ [station])
       else stations_loop features stations))"

definition stations_url :: string where
  "stations_url = METOBS_URL @ ''/collections/station/items''"

definition stations_params :: "bool \<Rightarrow> (string \<times> param) list" where
  "stations_params active_only =
     (if active_only
      then AList.update ''status'' (PStr ''Active'') [(''limit'', PInt 1000)]
      else [(''limit'', PInt 1000)])"

text \<open>\<^verbatim>\<open>DMIApiClient.get_stations\<close>.\<close>

definition get_stations :: "session \<Rightarrow> bool \<Rightarrow> exn + pyval" where
  "get_stations session active_only =
     ebind (request session stations_url (stations_params active_only)) (\<lambda>data.
     ebind (py_get data ''features'' (VList [])) (\<lambda>features.
     ebind (py_iter features) (\<lambda>fs.
     ebind (stations_loop fs []) (\<lambda>stations.
       Inr (VList stations)))))"

section \<open>Observations\<close>

definition observations_url :: string where
  "observations_url = METOBS_URL @ ''/collections/observation/items''"

definition observations_params :: "string \<Rightarrow> (string \<times> param) list" where
  "observations_params station_id = [(''stationId'', PStr station_id), (''period'', PStr ''latest'')]"

text \<open>
  The loop of \<^verbatim>\<open>get_observations\<close> over the features, with the dict built so far.
  The assignment \<^verbatim>\<open>observations[param_id] = {...}\<close> replaces whatever the key held.
\<close>

fun observations_loop :: "pyval list \<Rightarrow> (pyval \<times> pyval) list \<Rightarrow> exn + (pyval \<times> pyval) list" where
  "observations_loop [] observations = Inr observations"
| "observations_loop (feature # features) observations =
     ebind (py_get feature ''properties'' (VDict [])) (\<lambda>props.
     ebind (py_get props ''parameterId'' VNone) (\<lambda>param_id.
       if py_truthy param_id
       then
         ebind (py_get props ''value'' VNone) (\<lambda>v.
         ebind (py_get props ''observed'' VNone) (\<lambda>observed.
         ebind (py_setitem observations param_id
                  (VDict [(VStr ''value'', v), (VStr ''observed'', observed)])) (\<lambda>observations'.
           observations_loop features observations')))
       else observations_loop features observations))"

text \<open>\<^verbatim>\<open>DMIApiClient.get_observations\<close>.\<close>

definition get_observations :: "session \<Rightarrow> string \<Rightarrow> exn + pyval" where
  "get_observations session station_id =
     ebind (request session observations_url (observations_params station_id)) (\<lambda>data.
     ebind (py_get data ''features'' (VList [])) (\<lambda>features.
     ebind (py_iter features) (\<lambda>fs.
     ebind (observations_loop fs []) (\<lambda>observations.
       Inr (VDict observations)))))"

section \<open>Forecast\<close>

definition forecast_url :: string where
  "forecast_url = FORECAST_URL @ ''/collections/harmonie_dini_sf/position''"

definition forecast_params :: "real \<Rightarrow> real \<Rightarrow> (string \<times> param) list" where
  "forecast_params latitude longitude =
     [(''coords'', PPoint longitude latitude),
      (''crs'', PStr ''crs84''),
      (''parameter-name'',
         PStr ''temperature-2m,wind-speed-10m,wind-dir-10m,relative-humidity,total-precipitation,cloud-cover''),
      (''f'', PStr ''GeoJSON'')]"

text \<open>\<^verbatim>\<open>ranges.get(name, {}).get("values", [])\<close>.\<close>

definition range_values :: "pyval \<Rightarrow> string \<Rightarrow> exn + pyval" where
  "range_values ranges name =
     ebind (py_get ranges name (VDict [])) (\<lambda>r. py_get r ''values'' (VList []))"

text \<open>The six value arrays read before the loop.\<close>

record forecast_data =
  temperature_data :: pyval
  wind_speed_data :: pyval
  wind_dir_data :: pyval
  humidity_data :: pyval
  precipitation_data :: pyval
  cloud_cover_data :: pyval

text \<open>The test \<^verbatim>\<open>i < len(data) and data[i] is not None\<close>.\<close>

definition available :: "pyval \<Rightarrow> nat \<Rightarrow> exn + bool" where
  "available data i =
     ebind (py_len data) (\<lambda>n.
       if i < n then ebind (py_index data i) (\<lambda>v. Inr (v \<noteq> VNone)) else Inr False)"

text \<open>
  The first \<^verbatim>\<open>if\<close> of the loop body:
  \<^verbatim>\<open>forecast_entry["temperature"] = temperature_data[i] - 273.15\<close>.
\<close>

definition set_temperature ::
  "pyval \<Rightarrow> nat \<Rightarrow> (pyval \<times> pyval) list \<Rightarrow> exn + (pyval \<times> pyval) list" where
  "set_temperature data i forecast_entry =
     ebind (available data i) (\<lambda>b.
       if b
       then ebind (py_index data i) (\<lambda>kelvin.
            ebind (py_sub kelvin 273.15) (\<lambda>celsius.
              Inr (AList.update (VStr ''temperature'') celsius forecast_entry)))
       else Inr forecast_entry)"

text \<open>Each of the other five: \<^verbatim>\<open>forecast_entry[key] = data[i]\<close>.\<close>

definition set_value ::
  "string \<Rightarrow> pyval \<Rightarrow> nat \<Rightarrow> (pyval \<times> pyval) list \<Rightarrow> exn + (pyval \<times> pyval) list" where
  "set_value key data i forecast_entry =
     ebind (available data i) (\<lambda>b.
       if b
       then ebind (py_index data i) (\<lambda>v.
              Inr (AList.update (VStr key) v forecast_entry))
       else Inr forecast_entry)"

text \<open>The loop body of \<^verbatim>\<open>get_forecast\<close> for index \<open>i\<close> and its time value.\<close>

definition forecast_entry :: "forecast_data \<Rightarrow> nat \<Rightarrow> pyval \<Rightarrow> exn + pyval" where
  "forecast_entry fd i time_value =
     ebind (set_temperature (temperature_data fd) i [(VStr ''datetime'', time_value)]) (\<lambda>e1.
     ebind (set_value ''wind_speed'' (wind_speed_data fd) i e1) (\<lambda>e2.
     ebind (set_value ''wind_dir'' (wind_dir_data fd) i e2) (\<lambda>e3.
     ebind (set_value ''humidity'' (humidity_data fd) i e3) (\<lambda>e4.
     ebind (set_value ''precipitation'' (precipitation_data fd) i e4) (\<lambda>e5.
     ebind (set_value ''cloud_cover'' (cloud_cover_data fd) i e5) (\<lambda>e6.
       Inr (VDict e6)))))))"

text \<open>\<^verbatim>\<open>for i, time_value in enumerate(time_values)\<close>, with the list built so far.\<close>

fun hourly_loop :: "forecast_data \<Rightarrow> nat \<Rightarrow> pyval list \<Rightarrow> pyval list \<Rightarrow> exn + pyval list" where
  "hourly_loop fd i [] hourly_forecast = Inr hourly_forecast"
| "hourly_loop fd i (time_value # time_values) hourly_forecast =
     ebind (forecast_entry fd i time_value) (\<lambda>entry.
       hourly_loop fd (Suc i) time_values (hourly_forecast @ [entry]))"

text \<open>The part of \<^verbatim>\<open>get_forecast\<close> after the request: parsing the response.\<close>

definition parse_forecast :: "pyval \<Rightarrow> exn + pyval" where
  "parse_forecast data =
     ebind (py_get data ''ranges'' (VDict [])) (\<lambda>ranges.
     ebind (py_get data ''domain'' (VDict [])) (\<lambda>domain.
     ebind (py_get domain ''axes'' (VDict [])) (\<lambda>axes.
     ebind (py_get axes ''t'' (VDict [])) (\<lambda>time_axis.
     ebind (py_get time_axis ''values'' (VList [])) (\<lambda>time_values.
     ebind (range_values ranges ''temperature-2m'') (\<lambda>temperature.
     ebind (range_values ranges ''wind-speed-10m'') (\<lambda>wind_speed.
     ebind (range_values ranges ''wind-dir-10m'') (\<lambda>wind_dir.
     ebind (range_values ranges ''relative-humidity'') (\<lambda>humidity.
     ebind (range_values ranges ''total-precipitation'') (\<lambda>precipitation.
     ebind (range_values ranges ''cloud-cover'') (\<lambda>cloud_cover.
     ebind (py_iter time_values) (\<lambda>tvs.
     ebind (hourly_loop
              \<lparr>temperature_data = temperature, wind_speed_data = wind_speed,
               wind_dir_data = wind_dir, humidity_data = humidity,
               precipitation_data = precipitation, cloud_cover_data = cloud_cover\<rparr>
              0 tvs []) (\<lambda>hourly_forecast.
       Inr (VDict [(VStr ''hourly'', VList hourly_forecast)]))))))))))))))"

text \<open>\<^verbatim>\<open>DMIApiClient.get_forecast\<close>.\<close>

definition get_forecast :: "session \<Rightarrow> real \<Rightarrow> real \<Rightarrow> exn + pyval" where
  "get_forecast session latitude longitude =
     ebind (request session forecast_url (forecast_params latitude longitude)) parse_forecast"

section \<open>Connection test\<close>

text \<open>
  \<^verbatim>\<open>DMIApiClient.test_connection\<close>: \<^verbatim>\<open>except Exception\<close> takes every exception that
  \<^verbatim>\<open>_request\<close> raises, \<^verbatim>\<open>RateLimitExceeded\<close> included.
\<close>

definition test_connection :: "session \<Rightarrow> exn + bool" where
  "test_connection session =
     (case request session stations_url [(''limit'', PInt 1)] of
        Inr data \<Rightarrow> Inr True
      | Inl err \<Rightarrow> Inl (Exn CannotConnect (''Connection test failed: '' @ exn_str err) (Some err)))"

section \<open>The update coordinator\<close>

text \<open>
  The coordinator awaits the client's calls inside \<^verbatim>\<open>async_timeout.timeout(30)\<close>. An
  awaited call returns, raises an exception, or is cancelled because the 30 seconds have
  passed: the cancellation (\<^verbatim>\<open>asyncio.CancelledError\<close>, which does not derive from
  \<^verbatim>\<open>Exception\<close>) passes every \<^verbatim>\<open>except Exception\<close> and becomes a
  \<^verbatim>\<open>TimeoutError\<close> with an empty text where the timeout context is left. When the
  time runs out is not modelled: it is part of what the awaited call does.
\<close>

datatype signal = Raise exn | Cancel

record api_client =
  api_get_observations :: "string \<Rightarrow> signal + pyval"
  api_get_forecast :: "real \<Rightarrow> real \<Rightarrow> signal + pyval"

fun raised :: "exn + 'a \<Rightarrow> signal + 'a" where
  "raised (Inl err) = Inl (Raise err)"
| "raised (Inr v) = Inr v"

text \<open>The client of the sections above, over a session.\<close>

definition DMIApiClient :: "session \<Rightarrow> api_client" where
  "DMIApiClient session =
     \<lparr>api_get_observations = (\<lambda>station_id. raised (get_observations session station_id)),
      api_get_forecast = (\<lambda>latitude longitude. raised (get_forecast session latitude longitude))\<rparr>"

record coordinator =
  api :: api_client
  station_id :: string
  station_name :: string
  latitude :: "real option"
  longitude :: "real option"
  include_forecast :: bool

text \<open>
  The forecast of a cycle: \<^verbatim>\<open>None\<close> unless it is enabled and both coordinates are
  known; an exception of the fetch is logged and leaves \<^verbatim>\<open>None\<close>.
\<close>

definition fetch_forecast :: "coordinator \<Rightarrow> signal + pyval" where
  "fetch_forecast c =
     (case (include_forecast c, latitude c, longitude c) of
        (True, Some lat, Some lon) \<Rightarrow>
          (case api_get_forecast (api c) lat lon of
             Inr forecast \<Rightarrow> Inr forecast
           | Inl (Raise err) \<Rightarrow> Inr VNone
           | Inl Cancel \<Rightarrow> Inl Cancel)
      | _ \<Rightarrow> Inr VNone)"

text \<open>The body of the \<^verbatim>\<open>async with\<close>; \<open>now\<close> is what \<^verbatim>\<open>dt_util.utcnow()\<close> returns.\<close>

definition update_body :: "coordinator \<Rightarrow> nat \<Rightarrow> signal + pyval" where
  "update_body c now =
     ebind (api_get_observations (api c) (station_id c)) (\<lambda>observations.
     ebind (fetch_forecast c) (\<lambda>forecast.
       Inr (VDict
         [(VStr ''observations'', observations),
          (VStr ''forecast'', forecast),
          (VStr ''last_updated'', VDatetime now)])))"

text \<open>Leaving \<^verbatim>\<open>async_timeout.timeout(30)\<close>.\<close>

fun timeout_exit :: "signal + 'a \<Rightarrow> exn + 'a" where
  "timeout_exit (Inl Cancel) = Inl (Exn TimeoutError [] None)"
| "timeout_exit (Inl (Raise err)) = Inl err"
| "timeout_exit (Inr v) = Inr v"

text \<open>
  \<^verbatim>\<open>DMIDataUpdateCoordinator._async_update_data\<close>: the three \<^verbatim>\<open>except\<close> clauses
  wrap their exception in \<^verbatim>\<open>UpdateFailed\<close>; any other exception leaves as it is.
\<close>

definition async_update_data :: "coordinator \<Rightarrow> nat \<Rightarrow> exn + pyval" where
  "async_update_data c now =
     (case timeout_exit (update_body c now) of
        Inr snapshot \<Rightarrow> Inr snapshot
      | Inl err \<Rightarrow>
          (case exn_class err of
             RateLimitExceeded \<Rightarrow>
               Inl (Exn UpdateFailed (''Rate limit exceeded, will retry: '' @ exn_str err) (Some err))
           | CannotConnect \<Rightarrow>
               Inl (Exn UpdateFailed (''Connection error: '' @ exn_str err) (Some err))
           | TimeoutError \<Rightarrow>
               Inl (Exn UpdateFailed (''Timeout fetching data: '' @ exn_str err) (Some err))
           | _ \<Rightarrow> Inl err))"

section \<open>Shapes of the upstream responses\<close>

text \<open>
  The properties below are stated for responses of the shape the upstream API documents
  (GeoJSON feature collections, a CoverageJSON grid). On other values the functions above
  raise, as their definitions say.
\<close>

fun is_dict :: "pyval \<Rightarrow> bool" where
  "is_dict (VDict d) = True"
| "is_dict _ = False"

fun is_list :: "pyval \<Rightarrow> bool" where
  "is_list (VList xs) = True"
| "is_list _ = False"

fun is_str :: "pyval \<Rightarrow> bool" where
  "is_str (VStr s) = True"
| "is_str _ = False"

text \<open>
  A temperature of the grid: null, a float, or an integer within the range of the doubles.
\<close>

fun is_temperature :: "pyval \<Rightarrow> bool" where
  "is_temperature VNone = True"
| "is_temperature (VFloat x) = True"
| "is_temperature (VInt n) = fits_double (of_int n)"
| "is_temperature _ = False"

text \<open>The number that a finite numeric value stands for.\<close>

fun number :: "pyval \<Rightarrow> real option" where
  "number (VInt n) = Some (of_int n)"
| "number (VFloat (Finite x)) = Some x"
| "number _ = None"

text \<open>The member of a JSON object, if the value is an object and has it.\<close>

fun field :: "pyval \<Rightarrow> string \<Rightarrow> pyval option" where
  "field (VDict d) key = map_of d (VStr key)"
| "field _ key = None"

text \<open>The elements of a JSON array (none for an absent member).\<close>

fun elements :: "pyval option \<Rightarrow> pyval list" where
  "elements (Some (VList xs)) = xs"
| "elements _ = []"

text \<open>A member that is absent or an object, an array, a string or null.\<close>

definition dict_or_absent :: "pyval option \<Rightarrow> bool" where
  "dict_or_absent m = (case m of None \<Rightarrow> True | Some v \<Rightarrow> is_dict v)"

definition list_or_absent :: "pyval option \<Rightarrow> bool" where
  "list_or_absent m = (case m of None \<Rightarrow> True | Some v \<Rightarrow> is_list v)"

definition str_or_absent :: "pyval option \<Rightarrow> bool" where
  "str_or_absent m = (case m of None \<Rightarrow> True | Some v \<Rightarrow> v = VNone \<or> is_str v)"

text \<open>The member \<open>key\<close> of the member \<open>properties\<close> of a feature.\<close>

definition property :: "pyval \<Rightarrow> string \<Rightarrow> pyval option" where
  "property feature key =
     (case field feature ''properties'' of None \<Rightarrow> None | Some props \<Rightarrow> field props key)"

text \<open>
  A feature of the station collection: an object whose \<open>properties\<close> and \<open>geometry\<close>,
  where present, are objects, with a \<open>stationId\<close> that is a string (or null) and
  \<open>coordinates\<close> that are an array.
\<close>

definition station_feature :: "pyval \<Rightarrow> bool" where
  "station_feature feature \<longleftrightarrow>
     is_dict feature \<and>
     dict_or_absent (field feature ''properties'') \<and>
     str_or_absent (property feature ''stationId'') \<and>
     dict_or_absent (field feature ''geometry'') \<and>
     (case field feature ''geometry'' of
        None \<Rightarrow> True
      | Some geometry \<Rightarrow> list_or_absent (field geometry ''coordinates''))"

text \<open>A feature whose \<open>stationId\<close> is absent or empty.\<close>

definition lacks_station_id :: "pyval \<Rightarrow> bool" where
  "lacks_station_id feature \<longleftrightarrow>
     property feature ''stationId'' = None \<or>
     property feature ''stationId'' = Some VNone \<or>
     property feature ''stationId'' = Some (VStr [])"

text \<open>
  A feature of the observation collection: an object whose \<open>properties\<close>, where present,
  is an object, with a \<open>parameterId\<close> that is a string (or null).
\<close>

definition observation_feature :: "pyval \<Rightarrow> bool" where
  "observation_feature feature \<longleftrightarrow>
     is_dict feature \<and>
     dict_or_absent (field feature ''properties'') \<and>
     str_or_absent (property feature ''parameterId'')"

text \<open>The parameter id of an observation feature and the reading it reports.\<close>

definition parameter_id :: "pyval \<Rightarrow> pyval" where
  "parameter_id feature =
     (case property feature ''parameterId'' of None \<Rightarrow> VNone | Some v \<Rightarrow> v)"

definition reading :: "pyval \<Rightarrow> pyval" where
  "reading feature =
     VDict [(VStr ''value'', case property feature ''value'' of None \<Rightarrow> VNone | Some v \<Rightarrow> v),
            (VStr ''observed'', case property feature ''observed'' of None \<Rightarrow> VNone | Some v \<Rightarrow> v)]"

text \<open>The readings of a feed's features that have a parameter id, in feed order.\<close>

definition readings :: "pyval list \<Rightarrow> (pyval \<times> pyval) list" where
  "readings features =
     map (\<lambda>feature. (parameter_id feature, reading feature))
       (filter (\<lambda>feature. py_truthy (parameter_id feature)) features)"

text \<open>
  The statement that a record keeps, for every feature of the feed with a parameter id,
  a reading observed no earlier than the feature's. Timestamps are ISO 8601 strings in
  UTC, which are ordered as strings.
\<close>

fun observed_le :: "pyval option \<Rightarrow> pyval option \<Rightarrow> bool" where
  "observed_le (Some (VStr a)) (Some (VStr b)) = (a \<le> b)"
| "observed_le _ _ = False"

definition keeps_latest_observed :: "pyval list \<Rightarrow> (pyval \<times> pyval) list \<Rightarrow> bool" where
  "keeps_latest_observed features observations =
     list_all (\<lambda>feature.
        if py_truthy (parameter_id feature)
        then (case map_of observations (parameter_id feature) of
                None \<Rightarrow> False
              | Some kept \<Rightarrow> observed_le (property feature ''observed'') (field kept ''observed''))
        else True)
       features"

text \<open>
  The forecast response: the time axis \<open>domain.axes.t.values\<close> and the value array
  \<open>ranges.<name>.values\<close> of a parameter, each empty where a member on the way is absent.
\<close>

definition time_axis :: "pyval \<Rightarrow> pyval option" where
  "time_axis data =
     (case field data ''domain'' of None \<Rightarrow> None | Some domain \<Rightarrow>
        (case field domain ''axes'' of None \<Rightarrow> None | Some axes \<Rightarrow> field axes ''t''))"

definition time_values :: "pyval \<Rightarrow> pyval list" where
  "time_values data =
     elements (case time_axis data of None \<Rightarrow> None | Some t \<Rightarrow> field t ''values'')"

definition range_of :: "pyval \<Rightarrow> string \<Rightarrow> pyval option" where
  "range_of data name =
     (case field data ''ranges'' of None \<Rightarrow> None | Some ranges \<Rightarrow> field ranges name)"

definition parameter_values :: "pyval \<Rightarrow> string \<Rightarrow> pyval list" where
  "parameter_values data name =
     elements (case range_of data name of None \<Rightarrow> None | Some r \<Rightarrow> field r ''values'')"

text \<open>The upstream parameters copied without conversion, with the entry field of each.\<close>

definition copied_fields :: "(string \<times> string) list" where
  "copied_fields =
     [(''wind-speed-10m'', ''wind_speed''),
      (''wind-dir-10m'', ''wind_dir''),
      (''relative-humidity'', ''humidity''),
      (''total-precipitation'', ''precipitation''),
      (''cloud-cover'', ''cloud_cover'')]"

text \<open>All six, the temperature first.\<close>

definition forecast_fields :: "(string \<times> string) list" where
  "forecast_fields = (''temperature-2m'', ''temperature'') # copied_fields"

text \<open>An array has an entry at index \<open>i\<close> and it is not null.\<close>

definition has_value :: "pyval list \<Rightarrow> nat \<Rightarrow> bool" where
  "has_value vs i \<longleftrightarrow> i < length vs \<and> vs ! i \<noteq> VNone"

text \<open>The six value arrays of a grid response, as the loop of \<^verbatim>\<open>get_forecast\<close> gets them.\<close>

definition response_data :: "pyval \<Rightarrow> forecast_data" where
  "response_data data =
     \<lparr>temperature_data = VList (parameter_values data ''temperature-2m''),
      wind_speed_data = VList (parameter_values data ''wind-speed-10m''),
      wind_dir_data = VList (parameter_values data ''wind-dir-10m''),
      humidity_data = VList (parameter_values data ''relative-humidity''),
      precipitation_data = VList (parameter_values data ''total-precipitation''),
      cloud_cover_data = VList (parameter_values data ''cloud-cover'')\<rparr>"

text \<open>What \<^verbatim>\<open>v - 273.15\<close> returns, where it returns.\<close>

definition celsius :: "pyval \<Rightarrow> pyval" where
  "celsius v = (case py_sub v 273.15 of Inr c \<Rightarrow> c | Inl err \<Rightarrow> VNone)"

definition range_shape :: "pyval \<Rightarrow> string \<Rightarrow> bool" where
  "range_shape data name \<longleftrightarrow>
     dict_or_absent (range_of data name) \<and>
     (case range_of data name of None \<Rightarrow> True | Some r \<Rightarrow> list_or_absent (field r ''values''))"

text \<open>
  A grid response: objects on the way to the time axis and to the ranges, arrays of
  values, and temperatures that are null, floats or integers that a double can hold.
\<close>

definition forecast_response :: "pyval \<Rightarrow> bool" where
  "forecast_response data \<longleftrightarrow>
     is_dict data \<and>
     dict_or_absent (field data ''domain'') \<and>
     (case field data ''domain'' of None \<Rightarrow> True | Some domain \<Rightarrow>
        dict_or_absent (field domain ''axes'')) \<and>
     dict_or_absent (time_axis data) \<and>
     (case time_axis data of None \<Rightarrow> True | Some t \<Rightarrow> list_or_absent (field t ''values'')) \<and>
     dict_or_absent (field data ''ranges'') \<and>
     list_all (\<lambda>(name, key). range_shape data name) forecast_fields \<and>
     list_all is_temperature (parameter_values data ''temperature-2m'')"

text \<open>The class of the exception that a call raises.\<close>

definition raises :: "exn + 'a \<Rightarrow> exn_class \<Rightarrow> bool" where
  "raises r cls = (case r of Inl err \<Rightarrow> exn_class err = cls | Inr v \<Rightarrow> False)"

text \<open>
  The HTTP exchange of a request meets a 429: the response has the status 429, or the
  exchange raises an HTTP error with the status 429.
\<close>

definition http_429 :: "exn + response \<Rightarrow> bool" where
  "http_429 entered \<longleftrightarrow>
     (case entered of Inr response \<Rightarrow> status response = 429 | Inl err \<Rightarrow> False) \<or>
     raises (request_body entered) (ClientResponseError 429)"

text \<open>
  The HTTP exchange fails otherwise inside aiohttp: an HTTP error with another status, or
  another client error (a network failure).
\<close>

definition http_failure :: "exn + response \<Rightarrow> bool" where
  "http_failure entered =
     (case request_body entered of
        Inl err \<Rightarrow>
          (case exn_class err of
             ClientResponseError st \<Rightarrow> st \<noteq> 429
           | ClientError \<Rightarrow> True
           | _ \<Rightarrow> False)
      | Inr data \<Rightarrow> False)"

text \<open>The kind of an \<^verbatim>\<open>UpdateFailed\<close>, which the code tells by the text it starts with.\<close>

datatype update_kind = rate_limited | connection | timeout

definition starts_with :: "string \<Rightarrow> string \<Rightarrow> bool" where
  "starts_with p s \<longleftrightarrow> take (length p) s = p"

definition update_kind :: "exn \<Rightarrow> update_kind option" where
  "update_kind err =
     (if exn_class err \<noteq> UpdateFailed then None
      else if starts_with ''Rate limit exceeded, will retry: '' (exn_str err) then Some rate_limited
      else if starts_with ''Connection error: '' (exn_str err) then Some connection
      else if starts_with ''Timeout fetching data: '' (exn_str err) then Some timeout
      else None)"

text \<open>The forecast of a cycle is unavailable: disabled, a coordinate unknown, or the fetch raised.\<close>

definition forecast_unavailable :: "coordinator \<Rightarrow> bool" where
  "forecast_unavailable c \<longleftrightarrow>
     \<not> include_forecast c \<or> latitude c = None \<or> longitude c = None \<or>
     (case (latitude c, longitude c) of
        (Some lat, Some lon) \<Rightarrow>
          (case api_get_forecast (api c) lat lon of Inl (Raise err) \<Rightarrow> True | _ \<Rightarrow> False)
      | _ \<Rightarrow> False)"

section \<open>Example inputs\<close>

text \<open>A session that answers every request with status 200 and the given JSON value.\<close>

definition json_session :: "pyval \<Rightarrow> session" where
  "json_session data = (\<lambda>url params. Inr \<lparr>status = 200, raise_for_status = None, json = Inr data\<rparr>)"

text \<open>
  A session that answers with the given status and no usable body; \<^verbatim>\<open>raise_for_status\<close>
  raises for a status of 400 and above, as aiohttp does.
\<close>

definition status_session :: "int \<Rightarrow> session" where
  "status_session st =
     (\<lambda>url params. Inr
        \<lparr>status = st,
         raise_for_status = (if 400 \<le> st then Some (Exn (ClientResponseError st) [] None) else None),
         json = Inr VNone\<rparr>)"

text \<open>A session whose \<^verbatim>\<open>get\<close> raises.\<close>

definition failing_session :: "exn \<Rightarrow> session" where
  "failing_session err = (\<lambda>url params. Inl err)"

definition feature_collection :: "pyval list \<Rightarrow> pyval" where
  "feature_collection features = VDict [(VStr ''features'', VList features)]"

text \<open>Two station features, the first without \<open>stationId\<close>.\<close>

definition two_stations :: "pyval list" where
  "two_stations =
     [VDict [(VStr ''properties'', VDict [(VStr ''name'', VStr ''Test Station'')]),
             (VStr ''geometry'', VDict [(VStr ''coordinates'', VList [VFloat (Finite 10), VFloat (Finite 55)])])],
      VDict [(VStr ''properties'',
                VDict [(VStr ''stationId'', VStr ''12345''), (VStr ''name'', VStr ''Valid Station'')]),
             (VStr ''geometry'', VDict [(VStr ''coordinates'', VList [VFloat (Finite 11), VFloat (Finite 56)])])]]"

definition observation :: "string \<Rightarrow> real \<Rightarrow> string \<Rightarrow> pyval" where
  "observation param_id v observed =
     VDict [(VStr ''properties'',
        VDict [(VStr ''parameterId'', VStr param_id),
               (VStr ''value'', VFloat (Finite v)),
               (VStr ''observed'', VStr observed)])]"

text \<open>Two readings of one parameter, the earlier one first, and the same two swapped.\<close>

definition earlier_first :: "pyval list" where
  "earlier_first =
     [observation ''temp_dry'' 14.0 ''2024-01-15T11:00:00Z'',
      observation ''temp_dry'' 15.5 ''2024-01-15T12:00:00Z'']"

definition later_first :: "pyval list" where
  "later_first =
     [observation ''temp_dry'' 15.5 ''2024-01-15T12:00:00Z'',
      observation ''temp_dry'' 14.0 ''2024-01-15T11:00:00Z'']"

text \<open>
  A grid of two hours with temperatures, one wind speed and a null, and no other range.
  The first temperature is the double that the text \<^verbatim>\<open>288.65\<close> is parsed to.
\<close>

definition small_grid :: pyval where
  "small_grid =
     VDict
       [(VStr ''domain'', VDict [(VStr ''axes'', VDict [(VStr ''t'', VDict [(VStr ''values'',
           VList [VStr ''2024-01-15T12:00:00Z'', VStr ''2024-01-15T13:00:00Z''])])])]),
        (VStr ''ranges'', VDict
           [(VStr ''temperature-2m'', VDict [(VStr ''values'', VList [VFloat (Finite (double 288.65)), VNone])]),
            (VStr ''wind-speed-10m'', VDict [(VStr ''values'', VList [VFloat (Finite 5)])])])]"

text \<open>A grid of one hour with the temperature \<^verbatim>\<open>1e16\<close>, which is a double.\<close>

definition hot_grid :: pyval where
  "hot_grid =
     VDict
       [(VStr ''domain'', VDict [(VStr ''axes'', VDict [(VStr ''t'', VDict [(VStr ''values'',
           VList [VStr ''2024-01-15T12:00:00Z''])])])]),
        (VStr ''ranges'', VDict
           [(VStr ''temperature-2m'', VDict [(VStr ''values'', VList [VFloat (Finite (10 ^ 16))])])])]"

text \<open>A client whose calls have fixed outcomes, and a coordinator over it.\<close>

definition fixed_api :: "signal + pyval \<Rightarrow> signal + pyval \<Rightarrow> api_client" where
  "fixed_api observations forecast =
     \<lparr>api_get_observations = (\<lambda>station_id. observations),
      api_get_forecast = (\<lambda>latitude longitude. forecast)\<rparr>"

definition copenhagen :: "api_client \<Rightarrow> bool \<Rightarrow> coordinator" where
  "copenhagen client enabled =
     \<lparr>api = client, station_id = ''06180'', station_name = ''Kobenhavns Lufthavn'',
      latitude = Some 55.614, longitude = Some 12.6455, include_forecast = enabled\<rparr>"

definition some_observations :: pyval where
  "some_observations =
     VDict [(VStr ''temp_dry'',
       VDict [(VStr ''value'', VFloat (Finite 15.5)), (VStr ''observed'', VStr ''2024-01-15T12:00:00Z'')])]"

section \<open>Properties of the update coordinator\<close>

lemma async_update_data_returns:
  "async_update_data c now = Inr snapshot \<longleftrightarrow> update_body c now = Inr snapshot"
  by (cases "update_body c now" rule: timeout_exit.cases)
     (auto simp: async_update_data_def split: exn_class.splits)

lemma update_body_returns:
  assumes "update_body c now = Inr snapshot"
  obtains observations forecast where
    "api_get_observations (api c) (station_id c) = Inr observations"
    "fetch_forecast c = Inr forecast"
    "snapshot = VDict [(VStr ''observations'', observations), (VStr ''forecast'', forecast),
                       (VStr ''last_updated'', VDatetime now)]"
  using assms unfolding update_body_def
  by (cases "api_get_observations (api c) (station_id c)"; cases "fetch_forecast c") auto

lemma unavailable_forecast_is_None:
  "forecast_unavailable c \<Longrightarrow> fetch_forecast c = Inr VNone"
  by (auto simp: forecast_unavailable_def fetch_forecast_def
           split: option.splits sum.splits signal.splits bool.splits)

text \<open>
  Claim C2. When the observation fetch returns, the forecast is enabled, both coordinates
  are known and the forecast fetch raises an exception, whatever its class, the cycle
  raises nothing: it returns the snapshot with the fetched observations and a forecast of
  \<^verbatim>\<open>None\<close>.
\<close>

theorem forecast_failure_swallowed:
  assumes "api_get_observations (api c) (station_id c) = Inr observations"
    and "include_forecast c"
    and "latitude c = Some lat"
    and "longitude c = Some lon"
    and "api_get_forecast (api c) lat lon = Inl (Raise err)"
  shows "async_update_data c now =
           Inr (VDict [(VStr ''observations'', observations),
                       (VStr ''forecast'', VNone),
                       (VStr ''last_updated'', VDatetime now)])"
  using assms by (simp add: async_update_data_def update_body_def fetch_forecast_def)

theorem forecast_failure_swallowed_witness:
  "async_update_data
     (copenhagen (fixed_api (Inr some_observations)
        (Inl (Raise (Exn (OtherException ''Exception'') ''Forecast error'' None)))) True) 7 =
   Inr (VDict [(VStr ''observations'', some_observations),
               (VStr ''forecast'', VNone),
               (VStr ''last_updated'', VDatetime 7)])"
  by (rule forecast_failure_swallowed [where lat = "55.614" and lon = "12.6455"])
     (simp_all add: copenhagen_def fixed_api_def)

text \<open>
  Claim C3. When the observation fetch raises \<^verbatim>\<open>RateLimitExceeded\<close>, the cycle raises
  \<^verbatim>\<open>UpdateFailed\<close> of the rate-limited kind and not of the connection kind; when it
  raises \<^verbatim>\<open>CannotConnect\<close>, of the connection kind; when it raises
  \<^verbatim>\<open>TimeoutError\<close>, or when the overall timeout cancels the body, of the timeout
  kind. Each \<^verbatim>\<open>UpdateFailed\<close> has the exception it wraps as its cause.
\<close>

theorem observation_failure_kinds:
  "(api_get_observations (api c) (station_id c) = Inl (Raise err) \<and> exn_class err = RateLimitExceeded \<longrightarrow>
      (\<exists>failure. async_update_data c now = Inl failure \<and>
         exn_class failure = UpdateFailed \<and>
         exn_str failure = ''Rate limit exceeded, will retry: '' @ exn_str err \<and>
         update_kind failure = Some rate_limited \<and>
         update_kind failure \<noteq> Some connection \<and>
         exn_cause failure = Some err)) \<and>
   (api_get_observations (api c) (station_id c) = Inl (Raise err) \<and> exn_class err = CannotConnect \<longrightarrow>
      (\<exists>failure. async_update_data c now = Inl failure \<and>
         exn_class failure = UpdateFailed \<and>
         exn_str failure = ''Connection error: '' @ exn_str err \<and>
         update_kind failure = Some connection \<and>
         exn_cause failure = Some err)) \<and>
   (api_get_observations (api c) (station_id c) = Inl (Raise err) \<and> exn_class err = TimeoutError \<longrightarrow>
      (\<exists>failure. async_update_data c now = Inl failure \<and>
         exn_class failure = UpdateFailed \<and>
         exn_str failure = ''Timeout fetching data: '' @ exn_str err \<and>
         update_kind failure = Some timeout \<and>
         exn_cause failure = Some err)) \<and>
   (update_body c now = Inl Cancel \<longrightarrow>
      (\<exists>failure. async_update_data c now = Inl failure \<and>
         exn_class failure = UpdateFailed \<and>
         exn_str failure = ''Timeout fetching data: '' \<and>
         update_kind failure = Some timeout \<and>
         exn_cause failure = Some (Exn TimeoutError [] None)))"
  by (auto simp: async_update_data_def update_body_def update_kind_def starts_with_def)

theorem observation_failure_kinds_witness:
  "update_kind (projl (async_update_data
      (copenhagen (fixed_api (Inl (Raise (Exn RateLimitExceeded ''Rate limit'' None))) (Inr VNone)) True) 7))
     = Some rate_limited \<and>
   update_kind (projl (async_update_data
      (copenhagen (fixed_api (Inl (Raise (Exn CannotConnect ''Connection failed'' None))) (Inr VNone)) True) 7))
     = Some connection \<and>
   update_kind (projl (async_update_data
      (copenhagen (fixed_api (Inl (Raise (Exn TimeoutError ''Timeout'' None))) (Inr VNone)) True) 7))
     = Some timeout \<and>
   update_kind (projl (async_update_data
      (copenhagen (fixed_api (Inl Cancel) (Inr VNone)) True) 7))
     = Some timeout \<and>
   update_kind (projl (async_update_data
      (copenhagen (fixed_api (Inr some_observations) (Inl Cancel)) True) 7))
     = Some timeout"
  using
    observation_failure_kinds [of "copenhagen (fixed_api (Inl (Raise (Exn RateLimitExceeded ''Rate limit'' None))) (Inr VNone)) True"
       "Exn RateLimitExceeded ''Rate limit'' None" 7]
    observation_failure_kinds [of "copenhagen (fixed_api (Inl (Raise (Exn CannotConnect ''Connection failed'' None))) (Inr VNone)) True"
       "Exn CannotConnect ''Connection failed'' None" 7]
    observation_failure_kinds [of "copenhagen (fixed_api (Inl (Raise (Exn TimeoutError ''Timeout'' None))) (Inr VNone)) True"
       "Exn TimeoutError ''Timeout'' None" 7]
    observation_failure_kinds [of "copenhagen (fixed_api (Inl Cancel) (Inr VNone)) True" _ 7]
    observation_failure_kinds [of "copenhagen (fixed_api (Inr some_observations) (Inl Cancel)) True" _ 7]
  by (auto simp: copenhagen_def fixed_api_def update_body_def fetch_forecast_def)

text \<open>
  Claim C4. In every snapshot that a cycle returns, the forecast is \<^verbatim>\<open>None\<close> whenever
  the forecast is disabled, a coordinate is unknown or the forecast fetch raised; and in
  these cases the snapshot holds the observations that this cycle fetched.
\<close>

theorem forecast_absent_invariant:
  assumes "async_update_data c now = Inr snapshot"
    and "forecast_unavailable c"
  shows "field snapshot ''forecast'' = Some VNone \<and>
         (\<exists>observations. api_get_observations (api c) (station_id c) = Inr observations \<and>
            field snapshot ''observations'' = Some observations)"
proof -
  from assms(1) have "update_body c now = Inr snapshot"
    by (simp add: async_update_data_returns)
  then obtain observations forecast where
    "api_get_observations (api c) (station_id c) = Inr observations"
    "fetch_forecast c = Inr forecast"
    "snapshot = VDict [(VStr ''observations'', observations), (VStr ''forecast'', forecast),
                       (VStr ''last_updated'', VDatetime now)]"
    by (rule update_body_returns)
  with unavailable_forecast_is_None[OF assms(2)] show ?thesis by simp
qed

theorem forecast_absent_invariant_witness:
  "field (VDict [(VStr ''observations'', some_observations), (VStr ''forecast'', VNone),
                 (VStr ''last_updated'', VDatetime 7)]) ''forecast'' = Some VNone \<and>
   async_update_data (copenhagen (fixed_api (Inr some_observations) (Inr small_grid)) False) 7 =
     Inr (VDict [(VStr ''observations'', some_observations), (VStr ''forecast'', VNone),
                 (VStr ''last_updated'', VDatetime 7)]) \<and>
   forecast_unavailable (copenhagen (fixed_api (Inr some_observations) (Inr small_grid)) False)"
proof -
  let ?c = "copenhagen (fixed_api (Inr some_observations) (Inr small_grid)) False"
  let ?s = "VDict [(VStr ''observations'', some_observations), (VStr ''forecast'', VNone),
                   (VStr ''last_updated'', VDatetime 7)]"
  have run: "async_update_data ?c 7 = Inr ?s"
    by (simp add: async_update_data_def update_body_def fetch_forecast_def copenhagen_def
          fixed_api_def)
  have off: "forecast_unavailable ?c"
    by (simp add: forecast_unavailable_def copenhagen_def)
  from forecast_absent_invariant [OF run off] run off show ?thesis by simp
qed

text \<open>
  Claim C10. Every snapshot that a cycle returns is a dict with exactly the keys
  \<open>observations\<close>, \<open>forecast\<close> and \<open>last_updated\<close>; when the forecast is unavailable,
  the key \<open>forecast\<close> is there and bound to \<^verbatim>\<open>None\<close>.
\<close>

theorem snapshot_keys:
  assumes "async_update_data c now = Inr snapshot"
  shows "\<exists>d. snapshot = VDict d \<and>
           map fst d = [VStr ''observations'', VStr ''forecast'', VStr ''last_updated''] \<and>
           (forecast_unavailable c \<longrightarrow> map_of d (VStr ''forecast'') = Some VNone)"
proof -
  from assms have "update_body c now = Inr snapshot"
    by (simp add: async_update_data_returns)
  then obtain observations forecast where
    "fetch_forecast c = Inr forecast"
    "snapshot = VDict [(VStr ''observations'', observations), (VStr ''forecast'', forecast),
                       (VStr ''last_updated'', VDatetime now)]"
    by (rule update_body_returns)
  then show ?thesis using unavailable_forecast_is_None[of c] by auto
qed

theorem snapshot_keys_witness:
  "async_update_data
     (copenhagen (fixed_api (Inr some_observations) (Inl (Raise (Exn ValueError [] None)))) True) 7 =
     Inr (VDict [(VStr ''observations'', some_observations), (VStr ''forecast'', VNone),
                 (VStr ''last_updated'', VDatetime 7)]) \<and>
   forecast_unavailable
     (copenhagen (fixed_api (Inr some_observations) (Inl (Raise (Exn ValueError [] None)))) True) \<and>
   map_of [(VStr ''observations'', some_observations), (VStr ''forecast'', VNone),
           (VStr ''last_updated'', VDatetime 7)] (VStr ''forecast'') = Some VNone"
proof -
  let ?c = "copenhagen (fixed_api (Inr some_observations) (Inl (Raise (Exn ValueError [] None)))) True"
  let ?d = "[(VStr ''observations'', some_observations), (VStr ''forecast'', VNone),
             (VStr ''last_updated'', VDatetime 7)]"
  have run: "async_update_data ?c 7 = Inr (VDict ?d)"
    by (simp add: async_update_data_def update_body_def fetch_forecast_def copenhagen_def
          fixed_api_def)
  have off: "forecast_unavailable ?c"
    by (simp add: forecast_unavailable_def copenhagen_def fixed_api_def)
  from snapshot_keys [OF run] run off show ?thesis by simp
qed

section \<open>Properties of the connection test\<close>

text \<open>
  Claim C9. \<^verbatim>\<open>test_connection\<close> never returns \<^verbatim>\<open>False\<close>: it returns
  \<^verbatim>\<open>True\<close>, or it raises \<^verbatim>\<open>CannotConnect\<close> with the exception of the request as
  its cause.
\<close>

theorem test_connection_never_false:
  "test_connection session \<noteq> Inr False \<and>
   (test_connection session = Inr True \<or>
    (\<exists>err. request session stations_url [(''limit'', PInt 1)] = Inl err \<and>
       test_connection session =
         Inl (Exn CannotConnect (''Connection test failed: '' @ exn_str err) (Some err))))"
  by (auto simp: test_connection_def split: sum.splits)

theorem test_connection_never_false_witness:
  "test_connection (json_session (feature_collection [])) = Inr True \<and>
   test_connection (failing_session (Exn ClientError ''Connection failed'' None)) =
     Inl (Exn CannotConnect ''Connection test failed: Connection error: Connection failed''
            (Some (Exn CannotConnect ''Connection error: Connection failed''
               (Some (Exn ClientError ''Connection failed'' None)))))"
  using test_connection_never_false [of "json_session (feature_collection [])"]
    test_connection_never_false [of "failing_session (Exn ClientError ''Connection failed'' None)"]
  by (simp add: test_connection_def request_def request_body_def request_except_def
        json_session_def failing_session_def feature_collection_def)

section \<open>Classification of failures by the client\<close>

lemma raises_ebind:
  "raises m cls \<Longrightarrow> raises (ebind m f) cls"
  by (cases m) (auto simp: raises_def)

lemma request_429:
  "http_429 (session url params) \<Longrightarrow> raises (request session url params) RateLimitExceeded"
  by (cases "session url params")
     (auto simp: http_429_def raises_def request_def request_body_def request_except_def
           split: sum.splits option.splits if_splits)

lemma request_failure:
  "http_failure (session url params) \<Longrightarrow> raises (request session url params) CannotConnect"
  by (auto simp: http_failure_def raises_def request_def request_except_def
           split: sum.splits exn_class.splits)

text \<open>
  Claim C8, as the code has it. In \<^verbatim>\<open>get_stations\<close>, \<^verbatim>\<open>get_observations\<close> and
  \<^verbatim>\<open>get_forecast\<close>, a response with the status 429, or an HTTP error with the status
  429, raises \<^verbatim>\<open>RateLimitExceeded\<close>, and an HTTP error with another status or another
  aiohttp client error raises \<^verbatim>\<open>CannotConnect\<close>. \<^verbatim>\<open>test_connection\<close> raises
  \<^verbatim>\<open>CannotConnect\<close> for every exception of its request, the rate limit included.
\<close>

theorem failure_classification:
  "(http_429 (session stations_url (stations_params active_only)) \<longrightarrow>
      raises (get_stations session active_only) RateLimitExceeded) \<and>
   (http_failure (session stations_url (stations_params active_only)) \<longrightarrow>
      raises (get_stations session active_only) CannotConnect) \<and>
   (http_429 (session observations_url (observations_params sid)) \<longrightarrow>
      raises (get_observations session sid) RateLimitExceeded) \<and>
   (http_failure (session observations_url (observations_params sid)) \<longrightarrow>
      raises (get_observations session sid) CannotConnect) \<and>
   (http_429 (session forecast_url (forecast_params lat lon)) \<longrightarrow>
      raises (get_forecast session lat lon) RateLimitExceeded) \<and>
   (http_failure (session forecast_url (forecast_params lat lon)) \<longrightarrow>
      raises (get_forecast session lat lon) CannotConnect) \<and>
   (\<forall>err. request session stations_url [(''limit'', PInt 1)] = Inl err \<longrightarrow>
      test_connection session =
        Inl (Exn CannotConnect (''Connection test failed: '' @ exn_str err) (Some err)))"
  unfolding get_stations_def get_observations_def get_forecast_def
  by (auto intro!: raises_ebind request_429 request_failure simp: test_connection_def)

text \<open>
  The claim as it is written asks for the rate-limit condition in all four operations.
  On a response with the status 429, \<^verbatim>\<open>test_connection\<close> raises
  \<^verbatim>\<open>CannotConnect\<close>.
\<close>

theorem failure_classification_counterexample:
  "http_429 (status_session 429 stations_url [(''limit'', PInt 1)]) \<and>
   \<not> raises (test_connection (status_session 429)) RateLimitExceeded \<and>
   raises (test_connection (status_session 429)) CannotConnect"
  by (simp add: http_429_def raises_def test_connection_def request_def request_body_def
        request_except_def status_session_def)

theorem failure_classification_witness:
  "raises (get_stations (status_session 429) True) RateLimitExceeded \<and>
   raises (get_stations (failing_session (Exn (ClientResponseError 429) [] None)) True) RateLimitExceeded \<and>
   raises (get_observations (status_session 500) ''06180'') CannotConnect \<and>
   raises (get_forecast (failing_session (Exn ClientError ''Connection refused'' None)) 55.6761 12.5683)
     CannotConnect \<and>
   raises (test_connection (status_session 429)) CannotConnect"
proof -
  have a: "http_429 (status_session 429 stations_url (stations_params True))"
    by (simp add: http_429_def status_session_def)
  have b: "http_429 (failing_session (Exn (ClientResponseError 429) [] None) stations_url (stations_params True))"
    by (simp add: http_429_def failing_session_def request_body_def raises_def)
  have c: "http_failure (status_session 500 observations_url (observations_params ''06180''))"
    by (simp add: http_failure_def status_session_def request_body_def)
  have d: "http_failure (failing_session (Exn ClientError ''Connection refused'' None) forecast_url
             (forecast_params 55.6761 12.5683))"
    by (simp add: http_failure_def failing_session_def request_body_def)
  have e: "request (status_session 429) stations_url [(''limit'', PInt 1)] =
             Inl (Exn RateLimitExceeded ''DMI API rate limit exceeded'' None)"
    by (simp add: request_def request_body_def request_except_def status_session_def)
  from failure_classification [of "status_session 429" True "''06180''" "55.6761" "12.5683"] a e
  have 1: "raises (get_stations (status_session 429) True) RateLimitExceeded"
    and 5: "raises (test_connection (status_session 429)) CannotConnect"
    by (simp_all add: raises_def)
  from failure_classification [of "failing_session (Exn (ClientResponseError 429) [] None)" True] b
  have 2: "raises (get_stations (failing_session (Exn (ClientResponseError 429) [] None)) True) RateLimitExceeded"
    by simp
  from failure_classification [of "status_session 500" _ "''06180''"] c
  have 3: "raises (get_observations (status_session 500) ''06180'') CannotConnect"
    by simp
  from failure_classification [of "failing_session (Exn ClientError ''Connection refused'' None)" _ _ "55.6761" "12.5683"] d
  have 4: "raises (get_forecast (failing_session (Exn ClientError ''Connection refused'' None)) 55.6761 12.5683)
     CannotConnect"
    by simp
  from 1 2 3 4 5 show ?thesis by simp
qed

text \<open>
  An exception that is no aiohttp client error, such as the \<^verbatim>\<open>TimeoutError\<close> of an
  elapsed request timeout, leaves \<^verbatim>\<open>_request\<close> as it is.
\<close>

lemma timeout_not_classified:
  "get_stations (failing_session (Exn TimeoutError ''Request timed out'' None)) True =
     Inl (Exn TimeoutError ''Request timed out'' None)"
  by (simp add: get_stations_def request_def request_body_def request_except_def failing_session_def)

section \<open>Properties of the station and observation feeds\<close>

lemma py_get_field:
  "is_dict v \<Longrightarrow> py_get v key d = Inr (case field v key of None \<Rightarrow> d | Some x \<Rightarrow> x)"
  by (cases v) (auto split: option.splits)

text \<open>The properties object that the loops read from a feature.\<close>

lemma feature_properties:
  assumes "is_dict feature" and "dict_or_absent (field feature ''properties'')"
  shows "\<exists>props. py_get feature ''properties'' (VDict []) = Inr props \<and> is_dict props \<and>
           (\<forall>key. field props key = property feature key)"
proof (cases "field feature ''properties''")
  case None
  with assms(1) show ?thesis
    by (intro exI[of _ "VDict []"]) (simp add: py_get_field property_def)
next
  case (Some p)
  with assms show ?thesis
    by (intro exI[of _ p]) (simp add: py_get_field property_def dict_or_absent_def)
qed

lemma py_get_property:
  assumes "is_dict props" and "\<And>key. field props key = property feature key"
  shows "py_get props key d = Inr (case property feature key of None \<Rightarrow> d | Some x \<Rightarrow> x)"
  using assms by (simp add: py_get_field)

lemma coordinate_read:
  "is_list c \<Longrightarrow> \<exists>x. ebind (py_len c) (\<lambda>n. if n > i then py_index c i else Inr VNone) = Inr x"
  by (cases c) auto

lemma station_of_feature:
  assumes "station_feature f"
  shows "\<exists>st. station_of f = Inr st \<and>
           py_item st ''stationId'' =
             Inr (case property f ''stationId'' of None \<Rightarrow> VNone | Some v \<Rightarrow> v)"
proof -
  from assms have d: "is_dict f" "dict_or_absent (field f ''properties'')"
    by (simp_all add: station_feature_def)
  from feature_properties[OF d] obtain props where
    props: "py_get f ''properties'' (VDict []) = Inr props"
    "is_dict props" "\<And>key. field props key = property f key"
    by blast
  obtain geometry where geo: "py_get f ''geometry'' (VDict []) = Inr geometry" "is_dict geometry"
     "geometry = (case field f ''geometry'' of None \<Rightarrow> VDict [] | Some g \<Rightarrow> g)"
    using assms
    by (auto simp: station_feature_def py_get_field dict_or_absent_def split: option.splits)
  obtain coordinates where co:
     "py_get geometry ''coordinates'' (VList [VNone, VNone]) = Inr coordinates" "is_list coordinates"
    using assms geo
    by (auto simp: station_feature_def py_get_field list_or_absent_def split: option.splits)
  obtain lon where lon:
    "ebind (py_len coordinates) (\<lambda>n. if n > 0 then py_index coordinates 0 else Inr VNone) = Inr lon"
    using coordinate_read[OF co(2)] by blast
  obtain lat where lat:
    "ebind (py_len coordinates) (\<lambda>n. if n > 1 then py_index coordinates 1 else Inr VNone) = Inr lat"
    using coordinate_read[OF co(2)] by blast
  show ?thesis
    unfolding station_of_def using lon lat
    by (simp add: props(1) geo(1) co(1) py_get_property[OF props(2,3)])
qed

lemma truthy_station_id:
  assumes "station_feature f"
  shows "py_truthy (case property f ''stationId'' of None \<Rightarrow> VNone | Some v \<Rightarrow> v)
           \<longleftrightarrow> \<not> lacks_station_id f"
proof (cases "property f ''stationId''")
  case None
  then show ?thesis by (simp add: lacks_station_id_def)
next
  case (Some s)
  with assms have "s = VNone \<or> is_str s"
    by (simp add: station_feature_def str_or_absent_def)
  with Some show ?thesis by (cases s) (auto simp: lacks_station_id_def)
qed

lemma stations_loop_features:
  assumes "\<forall>f\<in>set fs. station_feature f"
  shows "\<exists>sts. stations_loop fs acc = Inr (acc @ sts) \<and>
           list_all2 (\<lambda>f st. station_of f = Inr st) (filter (\<lambda>f. \<not> lacks_station_id f) fs) sts"
  using assms
proof (induction fs arbitrary: acc)
  case Nil
  then show ?case by simp
next
  case (Cons f fs)
  then have wf: "station_feature f" and rest: "\<forall>g\<in>set fs. station_feature g" by simp_all
  from station_of_feature[OF wf] obtain st where st: "station_of f = Inr st"
    "py_item st ''stationId'' = Inr (case property f ''stationId'' of None \<Rightarrow> VNone | Some v \<Rightarrow> v)"
    by blast
  show ?case
  proof (cases "lacks_station_id f")
    case True
    from Cons.IH[OF rest, of acc] True st truthy_station_id[OF wf] show ?thesis by auto
  next
    case False
    from Cons.IH[OF rest, of "acc @ [st]"] obtain sts where
      "stations_loop fs (acc @ [st]) = Inr ((acc @ [st]) @ sts)"
      "list_all2 (\<lambda>f st. station_of f = Inr st) (filter (\<lambda>f. \<not> lacks_station_id f) fs) sts"
      by blast
    with False st truthy_station_id[OF wf] show ?thesis
      by (intro exI[of _ "st # sts"]) simp
  qed
qed

text \<open>
  Claim C5. For a station feed, \<^verbatim>\<open>get_stations\<close> raises nothing and returns, in feed
  order, the station dicts of exactly the features whose \<open>stationId\<close> is neither absent
  nor empty.
\<close>

theorem stations_without_id_dropped:
  assumes "request session stations_url (stations_params active_only) = Inr data"
    and "py_get data ''features'' (VList []) = Inr (VList features)"
    and "\<forall>feature\<in>set features. station_feature feature"
  shows "\<exists>stations. get_stations session active_only = Inr (VList stations) \<and>
           list_all2 (\<lambda>feature station. station_of feature = Inr station)
             (filter (\<lambda>feature. \<not> lacks_station_id feature) features) stations"
proof -
  from stations_loop_features[OF assms(3), of "[]"] obtain sts where
    "stations_loop features [] = Inr sts"
    "list_all2 (\<lambda>f st. station_of f = Inr st) (filter (\<lambda>f. \<not> lacks_station_id f) features) sts"
    by auto
  then show ?thesis by (simp add: get_stations_def assms(1,2))
qed

theorem stations_without_id_dropped_witness:
  "get_stations (json_session (feature_collection two_stations)) True =
     Inr (VList [VDict
       [(VStr ''stationId'', VStr ''12345''),
        (VStr ''name'', VStr ''Valid Station''),
        (VStr ''longitude'', VFloat (Finite 11)),
        (VStr ''latitude'', VFloat (Finite 56)),
        (VStr ''type'', VNone),
        (VStr ''parameterId'', VList [])]]) \<and>
   filter (\<lambda>feature. \<not> lacks_station_id feature) two_stations = [two_stations ! 1] \<and>
   length two_stations = 2"
proof -
  have req: "request (json_session (feature_collection two_stations)) stations_url (stations_params True)
               = Inr (feature_collection two_stations)"
    by (simp add: request_def request_body_def json_session_def)
  have fs: "py_get (feature_collection two_stations) ''features'' (VList []) = Inr (VList two_stations)"
    by (simp add: feature_collection_def)
  have wf: "\<forall>feature\<in>set two_stations. station_feature feature"
    by (simp add: two_stations_def station_feature_def property_def dict_or_absent_def
          str_or_absent_def list_or_absent_def)
  have sel: "filter (\<lambda>feature. \<not> lacks_station_id feature) two_stations = [two_stations ! 1]"
    by (simp add: two_stations_def lacks_station_id_def property_def)
  have st: "station_of (two_stations ! 1) = Inr (VDict
       [(VStr ''stationId'', VStr ''12345''),
        (VStr ''name'', VStr ''Valid Station''),
        (VStr ''longitude'', VFloat (Finite 11)),
        (VStr ''latitude'', VFloat (Finite 56)),
        (VStr ''type'', VNone),
        (VStr ''parameterId'', VList [])])"
    by (simp add: two_stations_def station_of_def)
  from stations_without_id_dropped [OF req fs wf] sel st show ?thesis
    by (auto simp: list_all2_Cons1 two_stations_def)
qed

lemma py_eq_str: "py_eq k (VStr s) \<longleftrightarrow> k = VStr s"
  by (cases k rule: number_of_key.cases) (auto simp: py_eq_def)

lemma dict_update_str: "dict_update (VStr s) v d = AList.update (VStr s) v d"
  by (induction d) (auto simp: py_eq_str)

lemma observation_step:
  assumes "observation_feature f"
  shows "observations_loop (f # fs) obs =
           observations_loop fs
             (if py_truthy (parameter_id f) then AList.update (parameter_id f) (reading f) obs else obs)"
proof -
  from assms have d: "is_dict f" "dict_or_absent (field f ''properties'')"
    by (simp_all add: observation_feature_def)
  from feature_properties[OF d] obtain props where
    props: "py_get f ''properties'' (VDict []) = Inr props"
    "is_dict props" "\<And>key. field props key = property f key"
    by blast
  have pid: "py_get props ''parameterId'' VNone = Inr (parameter_id f)"
    by (simp add: py_get_property[OF props(2,3)] parameter_id_def)
  have key: "py_truthy (parameter_id f) \<Longrightarrow>
      py_setitem obs (parameter_id f) v = Inr (AList.update (parameter_id f) v obs)" for v
    using assms
    by (cases "parameter_id f")
       (auto simp: observation_feature_def str_or_absent_def parameter_id_def py_setitem_def
          dict_update_str split: option.splits)
  have rd: "py_get props ''value'' VNone =
               Inr (case property f ''value'' of None \<Rightarrow> VNone | Some v \<Rightarrow> v)"
    "py_get props ''observed'' VNone =
               Inr (case property f ''observed'' of None \<Rightarrow> VNone | Some v \<Rightarrow> v)"
    by (simp_all add: py_get_property[OF props(2,3)])
  show ?thesis
  proof (cases "py_truthy (parameter_id f)")
    case True
    with key show ?thesis by (simp add: props(1) pid rd reading_def)
  next
    case False
    then show ?thesis by (simp add: props(1) pid)
  qed
qed

lemma observations_loop_features:
  assumes "\<forall>f\<in>set fs. observation_feature f"
  shows "\<exists>r. observations_loop fs obs = Inr r \<and>
           map_of r = map_of obs ++ map_of (rev (readings fs)) \<and>
           (distinct (map fst obs) \<longrightarrow> distinct (map fst r)) \<and>
           fst ` set r = fst ` set obs \<union> fst ` set (readings fs)"
  using assms
proof (induction fs arbitrary: obs)
  case Nil
  then show ?case by (simp add: readings_def)
next
  case (Cons f fs)
  then have wf: "observation_feature f" and rest: "\<forall>g\<in>set fs. observation_feature g"
    by simp_all
  show ?case
  proof (cases "py_truthy (parameter_id f)")
    case False
    with Cons.IH[OF rest, of obs] observation_step[OF wf, of fs obs] show ?thesis
      by (simp add: readings_def)
  next
    case True
    let ?obs' = "AList.update (parameter_id f) (reading f) obs"
    from Cons.IH[OF rest, of ?obs'] obtain r where r:
      "observations_loop fs ?obs' = Inr r"
      "map_of r = map_of ?obs' ++ map_of (rev (readings fs))"
      "distinct (map fst ?obs') \<longrightarrow> distinct (map fst r)"
      "fst ` set r = fst ` set ?obs' \<union> fst ` set (readings fs)"
      by blast
    have rd: "readings (f # fs) = (parameter_id f, reading f) # readings fs"
      using True by (simp add: readings_def)
    have "map_of r = map_of obs ++ map_of (rev (readings (f # fs)))"
      by (rule ext) (simp add: r(2) rd update_conv' map_add_def split: option.splits)
    moreover have "distinct (map fst obs) \<longrightarrow> distinct (map fst r)"
      using r(3) by (simp add: distinct_update)
    moreover have "fst ` set r = fst ` set obs \<union> fst ` set (readings (f # fs))"
      using r(4) by (auto simp: rd dom_update)
    ultimately show ?thesis
      using r(1) True observation_step[OF wf, of fs obs] by simp
  qed
qed

lemma readings_Cons:
  "readings (f # fs) =
     (if py_truthy (parameter_id f) then [(parameter_id f, reading f)] else []) @ readings fs"
  by (simp add: readings_def)

lemma readings_keys:
  "fst ` set (readings fs) = {parameter_id f | f. f \<in> set fs \<and> py_truthy (parameter_id f)}"
  by (auto simp: readings_def image_iff)

lemma last_reading:
  assumes "i < length fs"
    and "py_truthy (parameter_id (fs ! i))"
    and "\<forall>j. i < j \<and> j < length fs \<longrightarrow> parameter_id (fs ! j) \<noteq> parameter_id (fs ! i)"
  shows "map_of (rev (readings fs)) (parameter_id (fs ! i)) = Some (reading (fs ! i))"
  using assms
proof (induction fs arbitrary: i)
  case Nil
  then show ?case by simp
next
  case (Cons f fs)
  show ?case
  proof (cases i)
    case 0
    have "parameter_id f \<notin> fst ` set (readings fs)"
    proof
      assume "parameter_id f \<in> fst ` set (readings fs)"
      then obtain g where "g \<in> set fs" "parameter_id g = parameter_id f"
        by (auto simp: readings_keys)
      then obtain j where "j < length fs" "fs ! j = g"
        by (auto simp: in_set_conv_nth)
      with Cons.prems(3) 0 \<open>parameter_id g = parameter_id f\<close> show False
        by (auto dest: spec[of _ "Suc j"])
    qed
    then have "map_of (rev (readings fs)) (parameter_id f) = None"
      by (simp add: map_of_eq_None_iff)
    with 0 Cons.prems(2) show ?thesis
      by (simp add: readings_Cons map_add_def)
  next
    case (Suc k)
    with Cons.prems have k: "k < length fs" "py_truthy (parameter_id (fs ! k))"
      "\<forall>j. k < j \<and> j < length fs \<longrightarrow> parameter_id (fs ! j) \<noteq> parameter_id (fs ! k)"
      by (auto dest: spec[of _ "Suc j" for j])
    from Cons.IH[OF k] Suc show ?thesis
      by (simp add: readings_Cons map_add_def)
  qed
qed

text \<open>
  What the loop of \<^verbatim>\<open>get_observations\<close> computes: the record has one entry for each
  parameter id of the feed, and the entry of an id is the reading of the feature that comes
  last in the feed among those with this id. The \<open>observed\<close> timestamps are not compared.
\<close>

lemma last_reading_kept:
  assumes "request session observations_url (observations_params sid) = Inr data"
    and "py_get data ''features'' (VList []) = Inr (VList features)"
    and "\<forall>feature\<in>set features. observation_feature feature"
  shows "\<exists>observations.
           get_observations session sid = Inr (VDict observations) \<and>
           distinct (map fst observations) \<and>
           fst ` set observations =
             {parameter_id feature | feature.
                feature \<in> set features \<and> py_truthy (parameter_id feature)} \<and>
           (\<forall>i<length features.
              py_truthy (parameter_id (features ! i)) \<and>
              (\<forall>j. i < j \<and> j < length features \<longrightarrow>
                 parameter_id (features ! j) \<noteq> parameter_id (features ! i)) \<longrightarrow>
              map_of observations (parameter_id (features ! i)) = Some (reading (features ! i)))"
proof -
  from observations_loop_features[OF assms(3), of "[]"] obtain r where r:
    "observations_loop features [] = Inr r"
    "map_of r = map_of (rev (readings features))"
    "distinct (map fst r)"
    "fst ` set r = fst ` set (readings features)"
    by auto
  have "get_observations session sid = Inr (VDict r)"
    by (simp add: get_observations_def assms(1,2) r(1))
  moreover have "\<forall>i<length features.
       py_truthy (parameter_id (features ! i)) \<and>
       (\<forall>j. i < j \<and> j < length features \<longrightarrow>
          parameter_id (features ! j) \<noteq> parameter_id (features ! i)) \<longrightarrow>
       map_of r (parameter_id (features ! i)) = Some (reading (features ! i))"
    using last_reading[of _ features] by (simp add: r(2))
  ultimately show ?thesis
    using r(3,4) by (simp add: readings_keys)
qed

text \<open>
  With the earlier reading first, as in the repository's test
  \<^verbatim>\<open>test_get_observations_keeps_latest\<close>, the record keeps the later one.
\<close>

lemma earlier_first_keeps_later:
  "get_observations (json_session (feature_collection earlier_first)) ''06180'' =
     Inr (VDict [(VStr ''temp_dry'', reading (earlier_first ! 1))]) \<and>
   reading (earlier_first ! 1) =
     VDict [(VStr ''value'', VFloat (Finite 15.5)), (VStr ''observed'', VStr ''2024-01-15T12:00:00Z'')]"
proof -
  have req: "request (json_session (feature_collection earlier_first)) observations_url
               (observations_params ''06180'') = Inr (feature_collection earlier_first)"
    by (simp add: request_def request_body_def json_session_def)
  have fs: "py_get (feature_collection earlier_first) ''features'' (VList []) =
              Inr (VList earlier_first)"
    by (simp add: feature_collection_def)
  have wf: "\<forall>feature\<in>set earlier_first. observation_feature feature"
    by (simp add: earlier_first_def observation_def observation_feature_def property_def
          dict_or_absent_def str_or_absent_def)
  have run: "get_observations (json_session (feature_collection earlier_first)) ''06180'' =
     Inr (VDict [(VStr ''temp_dry'',
        VDict [(VStr ''value'', VFloat (Finite 15.5)), (VStr ''observed'', VStr ''2024-01-15T12:00:00Z'')])])"
    by (simp add: get_observations_def request_def request_body_def json_session_def
          feature_collection_def earlier_first_def observation_def py_setitem_def py_eq_str)
  have rd: "reading (earlier_first ! 1) =
     VDict [(VStr ''value'', VFloat (Finite 15.5)), (VStr ''observed'', VStr ''2024-01-15T12:00:00Z'')]"
    by (simp add: earlier_first_def observation_def reading_def property_def)
  from last_reading_kept [OF req fs wf] run rd show ?thesis by simp
qed

text \<open>
  Claim C1. The record is to keep, for each parameter id, the reading observed latest,
  wherever it stands in the feed. With the later reading first, \<^verbatim>\<open>get_observations\<close>
  keeps the reading of 11:00 and drops the one of 12:00.
\<close>

theorem later_first_keeps_earlier:
  "get_observations (json_session (feature_collection later_first)) ''06180'' =
     Inr (VDict [(VStr ''temp_dry'',
        VDict [(VStr ''value'', VFloat (Finite 14.0)), (VStr ''observed'', VStr ''2024-01-15T11:00:00Z'')])]) \<and>
   \<not> keeps_latest_observed later_first
       [(VStr ''temp_dry'',
        VDict [(VStr ''value'', VFloat (Finite 14.0)), (VStr ''observed'', VStr ''2024-01-15T11:00:00Z'')])]"
  by (simp add: get_observations_def request_def request_body_def json_session_def
        feature_collection_def later_first_def observation_def py_setitem_def py_eq_str
        keeps_latest_observed_def parameter_id_def property_def)

section \<open>Properties of double arithmetic\<close>

lemma pow2_powr: "pow2 e = 2 powr (of_int e)"
proof (cases "0 \<le> e")
  case True
  then show ?thesis by (simp add: pow2_def powr_realpow[symmetric])
next
  case False
  have "(2::real) powr (of_int e) = 2 powr (- of_int (- e))" by simp
  also have "\<dots> = 1 / 2 powr (of_int (- e))" by (rule powr_minus_divide)
  also have "(2::real) powr (of_int (- e)) = 2 ^ nat (- e)"
    using False by (simp add: powr_realpow[symmetric])
  finally show ?thesis using False by (simp add: pow2_def)
qed

lemma pow2_pos: "0 < pow2 e"
  by (simp add: pow2_powr)

lemma pow2_mono: "a \<le> b \<Longrightarrow> pow2 a \<le> pow2 b"
  by (simp add: pow2_powr)

lemma pow2_add: "pow2 (a + b) = pow2 a * pow2 b"
  by (simp add: pow2_powr powr_add)

lemma binade_eqI:
  assumes "pow2 e \<le> \<bar>x\<bar>" and "\<bar>x\<bar> < pow2 (e + 1)"
  shows "binade x = e"
proof -
  have "0 < \<bar>x\<bar>" using assms(1) pow2_pos[of e] by linarith
  then show ?thesis
    unfolding binade_def using assms
    by (subst floor_log_eq_powr_iff) (simp_all add: pow2_powr)
qed

lemma binade_le: 
  assumes "x \<noteq> 0"
  shows "pow2 (binade x) \<le> \<bar>x\<bar>"
proof -
  have "0 < \<bar>x\<bar>" using assms by simp
  have "of_int \<lfloor>log 2 \<bar>x\<bar>\<rfloor> \<le> log 2 \<bar>x\<bar>" by simp
  then have "2 powr (of_int \<lfloor>log 2 \<bar>x\<bar>\<rfloor>) \<le> 2 powr (log 2 \<bar>x\<bar>)"
    by (simp only: powr_le_cancel_iff) 
  then show ?thesis using \<open>0 < \<bar>x\<bar>\<close> by (simp add: pow2_powr binade_def)
qed

lemma round_even_error: "\<bar>of_int (round_even z) - z\<bar> \<le> 1 / 2"
  unfolding round_even_def by (auto; linarith)

lemma ulp_pos: "0 < ulp x"
  by (simp add: ulp_def pow2_pos)

lemma double_error: "\<bar>double x - x\<bar> \<le> ulp x / 2"
proof (cases "x = 0")
  case True
  then show ?thesis using ulp_pos[of x] by (simp add: double_def)
next
  case False
  have "double x - x = (of_int (round_even (x / ulp x)) - x / ulp x) * ulp x"
    using False ulp_pos[of x] by (simp add: double_def left_diff_distrib)
  then have "\<bar>double x - x\<bar> = \<bar>of_int (round_even (x / ulp x)) - x / ulp x\<bar> * ulp x"
    using ulp_pos[of x] by (simp add: abs_mult)
  also have "\<dots> \<le> 1 / 2 * ulp x"
    using round_even_error[of "x / ulp x"] ulp_pos[of x] by (intro mult_right_mono) simp_all
  finally show ?thesis by simp
qed

lemma ulp_le:
  assumes "x \<noteq> 0"
  shows "ulp x \<le> (\<bar>x\<bar> + 1) / 2 ^ 52"
proof -
  consider "binade x \<le> - 1022" | "- 1022 < binade x" by linarith
  then show ?thesis
  proof cases
    case 1
    then have "max (binade x) (- 1022) = - 1022" by simp
    then have "ulp x = pow2 (- 1074)" by (simp add: ulp_def)
    also have "\<dots> \<le> pow2 (- 52)" by (rule pow2_mono) simp
    also have "\<dots> = 1 / 2 ^ 52" by (simp add: pow2_def)
    also have "\<dots> \<le> (\<bar>x\<bar> + 1) / 2 ^ 52" by (simp add: divide_right_mono)
    finally show ?thesis .
  next
    case 2
    then have b: "max (binade x) (- 1022) = binade x" by simp
    have "ulp x = pow2 (binade x + (- 52))" by (simp add: ulp_def b)
    also have "\<dots> = pow2 (binade x) * pow2 (- 52)" by (rule pow2_add)
    also have "\<dots> \<le> \<bar>x\<bar> * pow2 (- 52)"
      using binade_le[OF assms] pow2_pos[of "- 52"] by (intro mult_right_mono) simp_all
    also have "\<dots> = \<bar>x\<bar> / 2 ^ 52" by (simp add: pow2_def)
    also have "\<dots> \<le> (\<bar>x\<bar> + 1) / 2 ^ 52" by (simp add: divide_right_mono)
    finally show ?thesis .
  qed
qed

lemma double_near: "\<bar>double x - x\<bar> \<le> (\<bar>x\<bar> + 1) / 2 ^ 53"
proof (cases "x = 0")
  case True
  then show ?thesis by (simp add: double_def)
next
  case False
  have "\<bar>double x - x\<bar> \<le> ulp x / 2" by (rule double_error)
  also have "\<dots> \<le> ((\<bar>x\<bar> + 1) / 2 ^ 52) / 2" using ulp_le[OF False] by simp
  finally show ?thesis by simp
qed

lemma small_fits_double:
  assumes "\<bar>x\<bar> \<le> 10 ^ 18"
  shows "fits_double x"
proof -
  define e where "e = (\<bar>x\<bar> + 1) / 2 ^ 53"
  have "e \<le> (\<bar>x\<bar> + 1) / 1"
    unfolding e_def by (intro divide_left_mono) simp_all
  moreover have "\<bar>double x - x\<bar> \<le> e"
    unfolding e_def by (rule double_near)
  ultimately have "\<bar>double x\<bar> \<le> \<bar>x\<bar> + (\<bar>x\<bar> + 1)" by simp
  also have "\<dots> \<le> 2 ^ 64" using assms by simp
  also have "\<dots> < (2::real) ^ 1024" by (rule power_strict_increasing) simp_all
  finally show ?thesis by (simp add: fits_double_def)
qed

lemma to_float_fits: "fits_double x \<Longrightarrow> to_float x = Finite (double x)"
  by (simp add: to_float_def)

text \<open>The double of the literal \<^verbatim>\<open>273.15\<close>.\<close>

lemma c_near: "\<bar>double 273.15 - 273.15\<bar> \<le> 1 / 10 ^ 13"
proof -
  have "\<bar>double 273.15 - 273.15\<bar> \<le> (\<bar>273.15\<bar> + 1) / 2 ^ 53" by (rule double_near)
  also have "\<dots> \<le> 1 / 10 ^ 13" by simp
  finally show ?thesis .
qed

lemma double_hot: "double (10 ^ 16 - double 273.15) = 9999999999999726"
proof -
  define c :: real where "c = double 273.15"
  define y :: real where "y = 10 ^ 16 - c"
  from c_near have "273.15 - 1 / 10 ^ 13 \<le> c" "c \<le> 273.15 + 1 / 10 ^ 13"
    unfolding c_def by linarith+
  then have y: "9999999999999726.8 \<le> y" "y \<le> 9999999999999726.9"
    unfolding y_def by simp_all
  have b: "binade y = 53"
    using y by (intro binade_eqI) (simp_all add: pow2_def)
  have u: "ulp y = 2" by (simp add: ulp_def b pow2_def)
  have f: "\<lfloor>y / 2\<rfloor> = 4999999999999863"
    using y by (intro floor_unique) simp_all
  have r: "round_even (y / 2) = 4999999999999863"
    unfolding round_even_def f using y by simp
  have "y \<noteq> 0" using y by simp
  then have "double y = 9999999999999726" by (simp add: double_def u r)
  then show ?thesis by (simp add: y_def c_def)
qed

section \<open>Properties of the forecast\<close>

lemma list_or_absent_elements:
  "list_or_absent m \<Longrightarrow> (case m of None \<Rightarrow> VList [] | Some v \<Rightarrow> v) = VList (elements m)"
  by (cases m) (auto simp: list_or_absent_def elim: is_list.elims)

lemma is_dict_default:
  "dict_or_absent m \<Longrightarrow> is_dict (case m of None \<Rightarrow> VDict [] | Some v \<Rightarrow> v)"
  by (cases m) (auto simp: dict_or_absent_def)

lemma field_default_None:
  "field (case m of None \<Rightarrow> VDict [] | Some v \<Rightarrow> v) key =
     (case m of None \<Rightarrow> None | Some v \<Rightarrow> field v key)"
  by (cases m) auto

lemma range_values_shape:
  assumes "is_dict ranges" and "\<And>key. field ranges key = range_of data key"
    and "range_shape data name"
  shows "range_values ranges name = Inr (VList (parameter_values data name))"
proof -
  let ?r = "case range_of data name of None \<Rightarrow> VDict [] | Some v \<Rightarrow> v"
  from assms(3) have d: "is_dict ?r"
    by (simp add: range_shape_def is_dict_default)
  from assms(3) have l: "list_or_absent (field ?r ''values'')"
    by (auto simp: range_shape_def list_or_absent_def split: option.splits)
  have "range_values ranges name = py_get ?r ''values'' (VList [])"
    by (simp add: range_values_def py_get_field[OF assms(1)] assms(2))
  also have "\<dots> = Inr (VList (elements (field ?r ''values'')))"
    by (simp add: py_get_field[OF d] list_or_absent_elements[OF l])
  also have "elements (field ?r ''values'') = parameter_values data name"
    by (simp add: parameter_values_def field_default_None)
  finally show ?thesis .
qed

lemma available_list: "available (VList vs) i = Inr (has_value vs i)"
  by (simp add: available_def has_value_def)

lemma set_value_list:
  "set_value key (VList vs) i e =
     Inr (if has_value vs i then AList.update (VStr key) (vs ! i) e else e)"
  by (simp add: set_value_def available_list) (simp add: has_value_def)

lemma py_sub_temperature:
  assumes "is_temperature v" and "v \<noteq> VNone"
  shows "py_sub v 273.15 = Inr (celsius v)"
  using assms by (cases v rule: is_temperature.cases) (simp_all add: celsius_def int_to_float_def)

lemma set_temperature_list:
  assumes "list_all is_temperature vs"
  shows "set_temperature (VList vs) i e =
     Inr (if has_value vs i then AList.update (VStr ''temperature'') (celsius (vs ! i)) e else e)"
proof (cases "has_value vs i")
  case False
  then show ?thesis by (simp add: set_temperature_def available_list)
next
  case True
  then have i: "i < length vs" "vs ! i \<noteq> VNone" by (simp_all add: has_value_def)
  with assms have t: "is_temperature (vs ! i)" by (auto simp: list_all_length)
  have "py_sub (vs ! i) 273.15 = Inr (celsius (vs ! i))" by (rule py_sub_temperature[OF t i(2)])
  with True i show ?thesis by (simp add: set_temperature_def available_list del: py_sub.simps)
qed

lemma map_of_put:
  "map_of (if c then AList.update k v e else e) k' =
     (if c \<and> k' = k then Some v else map_of e k')"
  by (simp add: update_conv')

lemma forecast_entry_lists:
  assumes "list_all is_temperature t"
  shows "\<exists>e. forecast_entry
            \<lparr>temperature_data = VList t, wind_speed_data = VList ws, wind_dir_data = VList wd,
             humidity_data = VList h, precipitation_data = VList p, cloud_cover_data = VList cc\<rparr>
            i tv = Inr (VDict e) \<and>
          map_of e (VStr ''datetime'') = Some tv \<and>
          map_of e (VStr ''temperature'') = (if has_value t i then Some (celsius (t ! i)) else None) \<and>
          map_of e (VStr ''wind_speed'') = (if has_value ws i then Some (ws ! i) else None) \<and>
          map_of e (VStr ''wind_dir'') = (if has_value wd i then Some (wd ! i) else None) \<and>
          map_of e (VStr ''humidity'') = (if has_value h i then Some (h ! i) else None) \<and>
          map_of e (VStr ''precipitation'') = (if has_value p i then Some (p ! i) else None) \<and>
          map_of e (VStr ''cloud_cover'') = (if has_value cc i then Some (cc ! i) else None)"
  unfolding forecast_entry_def
  by (simp add: set_temperature_list[OF assms] set_value_list map_of_put del: if_split cong: if_cong)

lemma hourly_loop_entries:
  assumes "\<And>j tv. \<exists>e. forecast_entry fd j tv = Inr e"
  shows "\<exists>es. hourly_loop fd i tvs acc = Inr (acc @ es) \<and> length es = length tvs \<and>
           (\<forall>j<length tvs. forecast_entry fd (i + j) (tvs ! j) = Inr (es ! j))"
proof (induction tvs arbitrary: i acc)
  case Nil
  then show ?case by simp
next
  case (Cons tv tvs)
  from assms obtain e where e: "forecast_entry fd i tv = Inr e" by blast
  from Cons.IH[of "Suc i" "acc @ [e]"] obtain es where es:
    "hourly_loop fd (Suc i) tvs (acc @ [e]) = Inr ((acc @ [e]) @ es)" "length es = length tvs"
    "\<forall>j<length tvs. forecast_entry fd (Suc i + j) (tvs ! j) = Inr (es ! j)"
    by blast
  have "\<forall>j<length (tv # tvs). forecast_entry fd (i + j) ((tv # tvs) ! j) = Inr ((e # es) ! j)"
  proof (intro allI impI)
    fix j assume "j < length (tv # tvs)"
    then show "forecast_entry fd (i + j) ((tv # tvs) ! j) = Inr ((e # es) ! j)"
      using e es(3) by (cases j) auto
  qed
  with e es(1,2) show ?case
    by (intro exI[of _ "e # es"]) simp
qed

lemma py_get_default_dict:
  assumes "is_dict v" and "dict_or_absent (field v key)"
  shows "py_get v key (VDict []) = Inr (case field v key of None \<Rightarrow> VDict [] | Some x \<Rightarrow> x)"
    and "is_dict (case field v key of None \<Rightarrow> VDict [] | Some x \<Rightarrow> x)"
  using assms by (simp_all add: py_get_field is_dict_default)

lemma parse_forecast_response:
  assumes "forecast_response data"
  shows "\<exists>es. parse_forecast data = Inr (VDict [(VStr ''hourly'', VList es)]) \<and>
           length es = length (time_values data) \<and>
           (\<forall>i<length es.
              forecast_entry (response_data data) i (time_values data ! i) = Inr (es ! i))"
proof -
  let ?ranges = "case field data ''ranges'' of None \<Rightarrow> VDict [] | Some x \<Rightarrow> x"
  let ?domain = "case field data ''domain'' of None \<Rightarrow> VDict [] | Some x \<Rightarrow> x"
  let ?axes = "case field ?domain ''axes'' of None \<Rightarrow> VDict [] | Some x \<Rightarrow> x"
  let ?t = "case field ?axes ''t'' of None \<Rightarrow> VDict [] | Some x \<Rightarrow> x"
  from assms have data: "is_dict data" by (simp add: forecast_response_def)
  from assms have ranges: "py_get data ''ranges'' (VDict []) = Inr ?ranges" "is_dict ?ranges"
    using py_get_default_dict[OF data, of "''ranges''"] by (simp_all add: forecast_response_def)
  have range_field: "\<And>key. field ?ranges key = range_of data key"
    by (simp add: range_of_def field_default_None)
  from assms have domain: "py_get data ''domain'' (VDict []) = Inr ?domain" "is_dict ?domain"
    using py_get_default_dict[OF data, of "''domain''"] by (simp_all add: forecast_response_def)
  from assms have "dict_or_absent (field ?domain ''axes'')"
    by (auto simp: forecast_response_def dict_or_absent_def split: option.splits)
  then have axes: "py_get ?domain ''axes'' (VDict []) = Inr ?axes" "is_dict ?axes"
    using py_get_default_dict[OF domain(2), of "''axes''"] by simp_all
  have t_axis: "field ?axes ''t'' = time_axis data"
    by (simp add: time_axis_def field_default_None split: option.splits)
  from assms have "dict_or_absent (field ?axes ''t'')"
    by (simp add: t_axis forecast_response_def)
  then have t: "py_get ?axes ''t'' (VDict []) = Inr ?t" "is_dict ?t"
    using py_get_default_dict[OF axes(2), of "''t''"] by simp_all
  have t_values: "field ?t ''values'' = (case time_axis data of None \<Rightarrow> None | Some t \<Rightarrow> field t ''values'')"
    using field_default_None[of "field ?axes ''t''" "''values''"] by (simp only: t_axis)
  from assms have "list_or_absent (field ?t ''values'')"
    by (auto simp: t_values forecast_response_def list_or_absent_def split: option.splits)
  then have tv: "py_get ?t ''values'' (VList []) = Inr (VList (time_values data))"
    by (simp add: py_get_field[OF t(2)] list_or_absent_elements time_values_def t_values)
  from assms have shapes: "\<And>name. name \<in> fst ` set forecast_fields \<Longrightarrow> range_shape data name"
    by (auto simp: forecast_response_def list_all_iff)
  have rv: "\<And>name. name \<in> fst ` set forecast_fields \<Longrightarrow>
              range_values ?ranges name = Inr (VList (parameter_values data name))"
    by (rule range_values_shape[OF ranges(2) range_field shapes])
  from assms have temps:
    "list_all is_temperature (parameter_values data ''temperature-2m'')"
    by (simp add: forecast_response_def)
  have total: "\<And>j tv. \<exists>e. forecast_entry (response_data data) j tv = Inr e"
    unfolding response_data_def using forecast_entry_lists[OF temps] by blast
  from hourly_loop_entries[of "response_data data" 0 "time_values data" "[]", OF total]
  obtain es where es: "hourly_loop (response_data data) 0 (time_values data) [] = Inr es"
    "length es = length (time_values data)"
    "\<forall>j<length (time_values data).
        forecast_entry (response_data data) j (time_values data ! j) = Inr (es ! j)"
    by auto
  have "parse_forecast data = Inr (VDict [(VStr ''hourly'', VList es)])"
    unfolding parse_forecast_def
    using es(1)
    by (simp add: ranges(1) domain(1) axes(1) t(1) tv rv forecast_fields_def copied_fields_def
          response_data_def)
  with es(2,3) show ?thesis by auto
qed

lemma response_temperature:
  assumes "forecast_response data" and "has_value (parameter_values data ''temperature-2m'') i"
  shows "py_sub (parameter_values data ''temperature-2m'' ! i) 273.15 =
           Inr (celsius (parameter_values data ''temperature-2m'' ! i))"
proof -
  from assms have "is_temperature (parameter_values data ''temperature-2m'' ! i)"
    by (auto simp: forecast_response_def has_value_def list_all_length)
  moreover from assms(2) have "parameter_values data ''temperature-2m'' ! i \<noteq> VNone"
    by (simp add: has_value_def)
  ultimately show ?thesis by (rule py_sub_temperature)
qed

lemma response_entry_fields:
  assumes "forecast_response data"
    and "forecast_entry (response_data data) i tv = Inr entry"
  shows "field entry ''datetime'' = Some tv"
    and "field entry ''temperature'' =
           (if has_value (parameter_values data ''temperature-2m'') i
            then Some (celsius (parameter_values data ''temperature-2m'' ! i)) else None)"
    and "\<forall>(name, key)\<in>set copied_fields.
           field entry key =
             (if has_value (parameter_values data name) i
              then Some (parameter_values data name ! i) else None)"
proof -
  from assms(1) have temps:
    "list_all is_temperature (parameter_values data ''temperature-2m'')"
    by (simp add: forecast_response_def)
  from forecast_entry_lists[OF temps, of
      "parameter_values data ''wind-speed-10m''" "parameter_values data ''wind-dir-10m''"
      "parameter_values data ''relative-humidity''" "parameter_values data ''total-precipitation''"
      "parameter_values data ''cloud-cover''" i tv] assms(2)
  obtain e where e: "entry = VDict e"
    "map_of e (VStr ''datetime'') = Some tv"
    "map_of e (VStr ''temperature'') =
       (if has_value (parameter_values data ''temperature-2m'') i
        then Some (celsius (parameter_values data ''temperature-2m'' ! i)) else None)"
    "map_of e (VStr ''wind_speed'') =
       (if has_value (parameter_values data ''wind-speed-10m'') i
        then Some (parameter_values data ''wind-speed-10m'' ! i) else None)"
    "map_of e (VStr ''wind_dir'') =
       (if has_value (parameter_values data ''wind-dir-10m'') i
        then Some (parameter_values data ''wind-dir-10m'' ! i) else None)"
    "map_of e (VStr ''humidity'') =
       (if has_value (parameter_values data ''relative-humidity'') i
        then Some (parameter_values data ''relative-humidity'' ! i) else None)"
    "map_of e (VStr ''precipitation'') =
       (if has_value (parameter_values data ''total-precipitation'') i
        then Some (parameter_values data ''total-precipitation'' ! i) else None)"
    "map_of e (VStr ''cloud_cover'') =
       (if has_value (parameter_values data ''cloud-cover'') i
        then Some (parameter_values data ''cloud-cover'' ! i) else None)"
    unfolding response_data_def by auto
  show "field entry ''datetime'' = Some tv" by (simp add: e(1,2))
  show "field entry ''temperature'' =
           (if has_value (parameter_values data ''temperature-2m'') i
            then Some (celsius (parameter_values data ''temperature-2m'' ! i)) else None)"
    by (simp add: e(1,3))
  show "\<forall>(name, key)\<in>set copied_fields.
           field entry key =
             (if has_value (parameter_values data name) i
              then Some (parameter_values data name ! i) else None)"
    by (simp add: copied_fields_def e(1) e(4) e(5) e(6) e(7) e(8) del: if_split cong: if_cong)
qed

lemma absent_range_has_no_value:
  "range_of data name = None \<Longrightarrow> \<not> has_value (parameter_values data name) i"
  by (simp add: parameter_values_def has_value_def)

lemma small_grid_request:
  "request (json_session small_grid) forecast_url (forecast_params lat lon) = Inr small_grid"
  by (simp add: request_def request_body_def json_session_def)

lemma small_grid_response: "forecast_response small_grid"
  by (simp add: forecast_response_def small_grid_def time_axis_def range_shape_def range_of_def
        parameter_values_def forecast_fields_def copied_fields_def dict_or_absent_def
        list_or_absent_def)

lemma small_grid_forecast:
  "get_forecast (json_session small_grid) lat lon =
     Inr (VDict [(VStr ''hourly'', VList
       [VDict [(VStr ''datetime'', VStr ''2024-01-15T12:00:00Z''),
               (VStr ''temperature'', celsius (VFloat (Finite (double 288.65)))),
               (VStr ''wind_speed'', VFloat (Finite 5))],
        VDict [(VStr ''datetime'', VStr ''2024-01-15T13:00:00Z'')]])])"
  by (simp add: get_forecast_def small_grid_request)
     (simp add: parse_forecast_def small_grid_def range_values_def forecast_entry_def
        set_temperature_list set_value_list has_value_def)

text \<open>
  Claim C7. For a grid response, \<^verbatim>\<open>get_forecast\<close> raises nothing and returns one
  entry for each element of the time axis, in its order; entry \<open>i\<close> has the field of a
  parameter if and only if the value array of the parameter has an entry at \<open>i\<close> that is
  not null; and a parameter whose range is absent gives no entry the field.
\<close>

theorem forecast_entries_follow_time_axis:
  assumes "request session forecast_url (forecast_params lat lon) = Inr data"
    and "forecast_response data"
  shows "\<exists>entries.
           get_forecast session lat lon = Inr (VDict [(VStr ''hourly'', VList entries)]) \<and>
           length entries = length (time_values data) \<and>
           (\<forall>i<length entries.
              field (entries ! i) ''datetime'' = Some (time_values data ! i) \<and>
              (\<forall>(name, key)\<in>set forecast_fields.
                 (field (entries ! i) key \<noteq> None \<longleftrightarrow>
                    has_value (parameter_values data name) i) \<and>
                 (range_of data name = None \<longrightarrow> field (entries ! i) key = None)))"
proof -
  from parse_forecast_response[OF assms(2)] obtain es where es:
    "parse_forecast data = Inr (VDict [(VStr ''hourly'', VList es)])"
    "length es = length (time_values data)"
    "\<forall>i<length es. forecast_entry (response_data data) i (time_values data ! i) = Inr (es ! i)"
    by blast
  have "field (es ! i) ''datetime'' = Some (time_values data ! i) \<and>
        (\<forall>(name, key)\<in>set forecast_fields.
           (field (es ! i) key \<noteq> None \<longleftrightarrow> has_value (parameter_values data name) i) \<and>
           (range_of data name = None \<longrightarrow> field (es ! i) key = None))"
    if i: "i < length es" for i
  proof -
    from es(3) i have e: "forecast_entry (response_data data) i (time_values data ! i) = Inr (es ! i)"
      by simp
    note f = response_entry_fields[OF assms(2) e]
    have "\<forall>(name, key)\<in>set copied_fields.
           (field (es ! i) key \<noteq> None \<longleftrightarrow> has_value (parameter_values data name) i) \<and>
           (range_of data name = None \<longrightarrow> field (es ! i) key = None)"
    proof (intro ballI, clarify)
      fix name key
      assume "(name, key) \<in> set copied_fields"
      with f(3) have "field (es ! i) key =
          (if has_value (parameter_values data name) i
           then Some (parameter_values data name ! i) else None)"
        by blast
      then show "(field (es ! i) key \<noteq> None \<longleftrightarrow> has_value (parameter_values data name) i) \<and>
           (range_of data name = None \<longrightarrow> field (es ! i) key = None)"
        using absent_range_has_no_value[of data name i] by auto
    qed
    moreover have
      "(field (es ! i) ''temperature'' \<noteq> None \<longleftrightarrow>
          has_value (parameter_values data ''temperature-2m'') i) \<and>
       (range_of data ''temperature-2m'' = None \<longrightarrow> field (es ! i) ''temperature'' = None)"
      using f(2) absent_range_has_no_value[of data "''temperature-2m''" i] by simp
    ultimately show ?thesis using f(1) by (simp add: forecast_fields_def)
  qed
  with es(1,2) show ?thesis
    by (simp add: get_forecast_def assms(1))
qed

theorem forecast_entries_follow_time_axis_witness:
  "forecast_response small_grid \<and>
   length (time_values small_grid) = 2 \<and>
   get_forecast (json_session small_grid) 55.6761 12.5683 =
     Inr (VDict [(VStr ''hourly'', VList
       [VDict [(VStr ''datetime'', VStr ''2024-01-15T12:00:00Z''),
               (VStr ''temperature'', celsius (VFloat (Finite (double 288.65)))),
               (VStr ''wind_speed'', VFloat (Finite 5))],
        VDict [(VStr ''datetime'', VStr ''2024-01-15T13:00:00Z'')]])]) \<and>
   range_of small_grid ''cloud-cover'' = None \<and>
   \<not> has_value (parameter_values small_grid ''temperature-2m'') 1"
proof -
  have "length (time_values small_grid) = 2"
    by (simp add: time_values_def time_axis_def small_grid_def)
  moreover have "range_of small_grid ''cloud-cover'' = None"
    by (simp add: range_of_def small_grid_def)
  moreover have "\<not> has_value (parameter_values small_grid ''temperature-2m'') 1"
    by (simp add: has_value_def parameter_values_def range_of_def small_grid_def)
  ultimately show ?thesis
    using forecast_entries_follow_time_axis [OF small_grid_request small_grid_response,
        of "55.6761" "12.5683"]
      small_grid_response small_grid_forecast [of "55.6761" "12.5683"]
    by simp
qed

lemma sub_near:
  assumes "\<bar>a - k\<bar> \<le> 2 / 10 ^ 4" and "\<bar>k\<bar> \<le> 10 ^ 12"
  shows "fits_double (a - double 273.15)"
    and "\<bar>double (a - double 273.15) - (k - 273.15)\<bar> \<le> 1 / 1000"
proof -
  define c :: real where "c = double 273.15"
  define y where "y = a - c"
  define e where "e = (\<bar>y\<bar> + 1) / 2 ^ 53"
  from c_near have c: "\<bar>c - 273.15\<bar> \<le> 1 / 10 ^ 13" by (simp add: c_def)
  with assms have y: "\<bar>y\<bar> \<le> 10 ^ 12 + 274"
    unfolding y_def abs_le_iff by (simp; linarith)
  then have "\<bar>y\<bar> \<le> 10 ^ 18" by simp
  then show "fits_double (a - double 273.15)"
    unfolding y_def c_def by (rule small_fits_double)
  have "e \<le> (10 ^ 12 + 275) / 2 ^ 53"
    unfolding e_def using y by (intro divide_right_mono) simp_all
  also have "\<dots> \<le> 2 / 10 ^ 4" by simp
  finally have e: "e \<le> 2 / 10 ^ 4" .
  have "\<bar>double y - y\<bar> \<le> e" unfolding e_def by (rule double_near)
  with e c assms(1) have "\<bar>double y - (k - 273.15)\<bar> \<le> 1 / 1000"
    unfolding y_def abs_le_iff by (simp; linarith)
  then show "\<bar>double (a - double 273.15) - (k - 273.15)\<bar> \<le> 1 / 1000"
    by (simp add: y_def c_def)
qed

lemma int_near:
  assumes "\<bar>real_of_int n\<bar> \<le> 10 ^ 12"
  shows "fits_double (of_int n)" and "\<bar>double (of_int n) - of_int n\<bar> \<le> 2 / 10 ^ 4"
proof -
  from assms have "\<bar>real_of_int n\<bar> \<le> 10 ^ 18" by simp
  then show "fits_double (of_int n)" by (rule small_fits_double)
  have "\<bar>double (of_int n) - of_int n\<bar> \<le> (\<bar>real_of_int n\<bar> + 1) / 2 ^ 53" by (rule double_near)
  also have "\<dots> \<le> (10 ^ 12 + 1) / 2 ^ 53"
    using assms by (intro divide_right_mono) simp_all
  also have "\<dots> \<le> 2 / 10 ^ 4" by simp
  finally show "\<bar>double (of_int n) - of_int n\<bar> \<le> 2 / 10 ^ 4" .
qed

lemma celsius_near:
  assumes "number v = Some kelvin" and "\<bar>kelvin\<bar> \<le> 10 ^ 12"
  shows "\<exists>c. celsius v = VFloat (Finite c) \<and> \<bar>c - (kelvin - 273.15)\<bar> \<le> 1 / 1000"
proof (cases v rule: number.cases)
  case (1 n)
  with assms have k: "kelvin = of_int n" and n: "\<bar>real_of_int n\<bar> \<le> 10 ^ 12" by simp_all
  note a = int_near[OF n]
  from a(2) have "\<bar>double (of_int n) - kelvin\<bar> \<le> 2 / 10 ^ 4" by (simp add: k)
  note s = sub_near[OF this assms(2)]
  have "celsius v = VFloat (Finite (double (double (of_int n) - double 273.15)))"
    using a(1) to_float_fits[OF s(1)] by (simp add: 1 celsius_def int_to_float_def)
  with s(2) show ?thesis by blast
next
  case (2 x)
  with assms have k: "kelvin = x" by simp
  have "\<bar>x - kelvin\<bar> \<le> 2 / 10 ^ 4" by (simp add: k)
  note s = sub_near[OF this assms(2)]
  have "celsius v = VFloat (Finite (double (x - double 273.15)))"
    using to_float_fits[OF s(1)] by (simp add: 2 celsius_def)
  with s(2) show ?thesis by blast
qed (use assms in simp_all)

lemma hot_celsius: "celsius (VFloat (Finite (10 ^ 16))) = VFloat (Finite 9999999999999726)"
proof -
  define d where "d = double (10 ^ 16 - double 273.15)"
  have d: "d = 9999999999999726" unfolding d_def by (rule double_hot)
  have "(9999999999999726::real) \<le> 2 ^ 64" by simp
  also have "\<dots> < (2::real) ^ 1024" by (rule power_strict_increasing) simp_all
  finally have "\<bar>d\<bar> < 2 ^ 1024" unfolding d by simp
  then have fits: "fits_double (10 ^ 16 - double 273.15)"
    unfolding fits_double_def d_def .
  have "celsius (VFloat (Finite (10 ^ 16))) = VFloat (to_float (10 ^ 16 - double 273.15))"
    by (simp add: celsius_def)
  also have "to_float (10 ^ 16 - double 273.15) = Finite d"
    unfolding d_def by (rule to_float_fits[OF fits])
  finally show ?thesis by (simp only: d)
qed

lemma double_28865: "\<bar>double 288.65 - 288.65\<bar> \<le> 1 / 10 ^ 13"
proof -
  have "\<bar>double 288.65 - 288.65\<bar> \<le> (\<bar>288.65\<bar> + 1) / 2 ^ 53" by (rule double_near)
  also have "\<dots> \<le> 1 / 10 ^ 13" by simp
  finally show ?thesis .
qed

lemma hot_grid_request:
  "request (json_session hot_grid) forecast_url (forecast_params lat lon) = Inr hot_grid"
  by (simp add: request_def request_body_def json_session_def)

text \<open>
  Claim C6, as the code has it. In the entries that \<^verbatim>\<open>get_forecast\<close> returns for a
  grid response, the temperature is what the double subtraction of 273.15 from the upstream
  value returns; for an upstream number of magnitude at most \<open>10 ^ 12\<close> it is a finite
  float within 0.001 of the number minus 273.15 (so 288.65 gives 15.5 within 0.01). The
  fields \<open>wind_speed\<close>, \<open>wind_dir\<close>, \<open>humidity\<close>, \<open>precipitation\<close> and \<open>cloud_cover\<close> are the
  upstream values as they are.
\<close>

theorem temperature_converted_others_copied:
  assumes "request session forecast_url (forecast_params lat lon) = Inr data"
    and "forecast_response data"
  shows "\<exists>entries.
           get_forecast session lat lon = Inr (VDict [(VStr ''hourly'', VList entries)]) \<and>
           (\<forall>i<length entries.
              (has_value (parameter_values data ''temperature-2m'') i \<longrightarrow>
                 (\<exists>t. py_sub (parameter_values data ''temperature-2m'' ! i) 273.15 = Inr t \<and>
                    field (entries ! i) ''temperature'' = Some t)) \<and>
              (\<forall>kelvin.
                 has_value (parameter_values data ''temperature-2m'') i \<and>
                 number (parameter_values data ''temperature-2m'' ! i) = Some kelvin \<and>
                 \<bar>kelvin\<bar> \<le> 10 ^ 12 \<longrightarrow>
                 (\<exists>c. field (entries ! i) ''temperature'' = Some (VFloat (Finite c)) \<and>
                    \<bar>c - (kelvin - 273.15)\<bar> \<le> 1 / 1000)) \<and>
              (\<forall>(name, key)\<in>set copied_fields.
                 has_value (parameter_values data name) i \<longrightarrow>
                   field (entries ! i) key = Some (parameter_values data name ! i)))"
proof -
  let ?temps = "parameter_values data ''temperature-2m''"
  from parse_forecast_response[OF assms(2)] obtain es where es:
    "parse_forecast data = Inr (VDict [(VStr ''hourly'', VList es)])"
    "\<forall>i<length es. forecast_entry (response_data data) i (time_values data ! i) = Inr (es ! i)"
    by blast
  have "(has_value ?temps i \<longrightarrow>
           (\<exists>t. py_sub (?temps ! i) 273.15 = Inr t \<and> field (es ! i) ''temperature'' = Some t)) \<and>
        (\<forall>kelvin. has_value ?temps i \<and> number (?temps ! i) = Some kelvin \<and> \<bar>kelvin\<bar> \<le> 10 ^ 12 \<longrightarrow>
           (\<exists>c. field (es ! i) ''temperature'' = Some (VFloat (Finite c)) \<and>
              \<bar>c - (kelvin - 273.15)\<bar> \<le> 1 / 1000)) \<and>
        (\<forall>(name, key)\<in>set copied_fields.
           has_value (parameter_values data name) i \<longrightarrow>
             field (es ! i) key = Some (parameter_values data name ! i))"
    if i: "i < length es" for i
  proof -
    from es(2) i have e: "forecast_entry (response_data data) i (time_values data ! i) = Inr (es ! i)"
      by simp
    note f = response_entry_fields[OF assms(2) e]
    have temp: "field (es ! i) ''temperature'' = Some (celsius (?temps ! i))"
      if "has_value ?temps i"
      using f(2) that by simp
    have "\<exists>t. py_sub (?temps ! i) 273.15 = Inr t \<and> field (es ! i) ''temperature'' = Some t"
      if "has_value ?temps i"
      using response_temperature[OF assms(2) that] temp[OF that] by blast
    moreover have "\<exists>c. field (es ! i) ''temperature'' = Some (VFloat (Finite c)) \<and>
              \<bar>c - (kelvin - 273.15)\<bar> \<le> 1 / 1000"
      if "has_value ?temps i" "number (?temps ! i) = Some kelvin" "\<bar>kelvin\<bar> \<le> 10 ^ 12"
      for kelvin
      using celsius_near[OF that(2,3)] temp[OF that(1)] by auto
    moreover have "\<forall>(name, key)\<in>set copied_fields.
           has_value (parameter_values data name) i \<longrightarrow>
             field (es ! i) key = Some (parameter_values data name ! i)"
      using f(3) by fastforce
    ultimately show ?thesis by blast
  qed
  with es(1) show ?thesis
    by (simp add: get_forecast_def assms(1))
qed

theorem temperature_converted_others_copied_witness:
  "forecast_response small_grid \<and>
   parameter_values small_grid ''temperature-2m'' ! 0 = VFloat (Finite (double 288.65)) \<and>
   parameter_values small_grid ''wind-speed-10m'' ! 0 = VFloat (Finite 5) \<and>
   (\<exists>entries c.
      get_forecast (json_session small_grid) 55.6761 12.5683 =
        Inr (VDict [(VStr ''hourly'', VList entries)]) \<and>
      field (entries ! 0) ''temperature'' = Some (VFloat (Finite c)) \<and>
      \<bar>c - 15.5\<bar> \<le> 0.01 \<and>
      field (entries ! 0) ''wind_speed'' = Some (VFloat (Finite 5)))"
proof -
  let ?temps = "parameter_values small_grid ''temperature-2m''"
  have t0: "?temps ! 0 = VFloat (Finite (double 288.65))"
    and w0: "parameter_values small_grid ''wind-speed-10m'' ! 0 = VFloat (Finite 5)"
    and hv: "has_value ?temps 0" "has_value (parameter_values small_grid ''wind-speed-10m'') 0"
    by (simp_all add: parameter_values_def range_of_def small_grid_def has_value_def)
  from temperature_converted_others_copied [OF small_grid_request small_grid_response,
        of "55.6761" "12.5683"]
  obtain entries where run:
      "get_forecast (json_session small_grid) 55.6761 12.5683 =
         Inr (VDict [(VStr ''hourly'', VList entries)])"
    and all: "\<forall>i<length entries.
       (has_value ?temps i \<longrightarrow>
          (\<exists>t. py_sub (?temps ! i) 273.15 = Inr t \<and> field (entries ! i) ''temperature'' = Some t)) \<and>
       (\<forall>kelvin. has_value ?temps i \<and> number (?temps ! i) = Some kelvin \<and> \<bar>kelvin\<bar> \<le> 10 ^ 12 \<longrightarrow>
          (\<exists>c. field (entries ! i) ''temperature'' = Some (VFloat (Finite c)) \<and>
             \<bar>c - (kelvin - 273.15)\<bar> \<le> 1 / 1000)) \<and>
       (\<forall>(name, key)\<in>set copied_fields.
          has_value (parameter_values small_grid name) i \<longrightarrow>
            field (entries ! i) key = Some (parameter_values small_grid name ! i))"
    by blast
  from run small_grid_forecast [of "55.6761" "12.5683"] have "length entries = 2" by auto
  then have 0: "0 < length entries" by simp
  have k: "\<bar>double 288.65\<bar> \<le> 10 ^ 12"
    using double_28865 unfolding abs_le_iff by (simp; linarith)
  from all 0 hv(1) t0 k obtain c where c:
    "field (entries ! 0) ''temperature'' = Some (VFloat (Finite c))"
    "\<bar>c - (double 288.65 - 273.15)\<bar> \<le> 1 / 1000"
    by force
  from c(2) double_28865 have "\<bar>c - 15.5\<bar> \<le> 0.01"
    unfolding abs_le_iff by (simp; linarith)
  moreover from all 0 hv(2) w0 have "field (entries ! 0) ''wind_speed'' = Some (VFloat (Finite 5))"
    by (force simp: copied_fields_def)
  ultimately show ?thesis
    using small_grid_response t0 w0 run c(1) by blast
qed

text \<open>
  The claim as it is written has the temperature equal to the upstream value minus 273.15
  in every entry. For the upstream value \<^verbatim>\<open>1e16\<close> the doubles are 2 apart, and the
  temperature is 9999999999999726, which is 0.85 away.
\<close>

theorem temperature_exact_counterexample:
  "get_forecast (json_session hot_grid) 55.6761 12.5683 =
     Inr (VDict [(VStr ''hourly'', VList
       [VDict [(VStr ''datetime'', VStr ''2024-01-15T12:00:00Z''),
               (VStr ''temperature'', VFloat (Finite 9999999999999726))]])]) \<and>
   (9999999999999726 :: real) \<noteq> 10 ^ 16 - 273.15 \<and>
   0.01 < \<bar>9999999999999726 - (10 ^ 16 - 273.15 :: real)\<bar>"
proof -
  have "get_forecast (json_session hot_grid) 55.6761 12.5683 =
     Inr (VDict [(VStr ''hourly'', VList
       [VDict [(VStr ''datetime'', VStr ''2024-01-15T12:00:00Z''),
               (VStr ''temperature'', celsius (VFloat (Finite (10 ^ 16))))]])])"
    by (simp add: get_forecast_def hot_grid_request)
       (simp add: parse_forecast_def hot_grid_def range_values_def forecast_entry_def
          set_temperature_list set_value_list has_value_def)
  then show ?thesis using hot_celsius by simp
qed

end
